theory Spec2Isabelle
  imports Main
begin

section \<open>Go values shared by all services\<close>

text \<open>
  A Go \<open>error\<close> built by \<open>fmt.Errorf\<close>.  \<open>Errorf msg\<close> is an error with no wrapped
  cause (a format without \<open>%w\<close>); \<open>Wrapf msg e\<close> is the error produced by a format that
  ends in \<open>%w\<close> applied to the non-nil error \<open>e\<close>: its text is \<open>msg\<close> followed by the
  text of \<open>e\<close>, and \<open>Unwrap\<close> returns \<open>e\<close>.  A nil \<open>error\<close> is \<open>None :: err option\<close>.
\<close>

datatype err = Errorf string | Wrapf string err

fun Error :: "err \<Rightarrow> string" where
  "Error (Errorf msg) = msg"
| "Error (Wrapf msg e) = msg @ Error e"

text \<open>\<open>errors.Is\<close> on these values: walk the \<open>Unwrap\<close> chain and compare.\<close>

fun errors_Is :: "err \<Rightarrow> err \<Rightarrow> bool" where
  "errors_Is (Errorf msg) target = (Errorf msg = target)"
| "errors_Is (Wrapf msg e) target = (Wrapf msg e = target \<or> errors_Is e target)"

text \<open>A \<open>time.Time\<close> reading, as a count of clock ticks.\<close>

type_synonym time = nat

section \<open>The task store (package task, \<open>taskServiceImpl\<close>)\<close>

record Task =
  ID :: string
  Name :: string
  Description :: string
  Priority :: int
  Owner :: string
  Assignee :: string
  DueDate :: "time option"
  Category :: string
  FormKey :: string
  ParentTaskID :: string
  ProcessInstanceID :: string
  ProcessDefinitionID :: string
  ExecutionID :: string
  TaskDefinitionKey :: string
  CreateTime :: time
  ClaimTime :: "time option"
  TenantID :: string
  Suspended :: bool
  CandidateUsers :: "string list"
  CandidateGroups :: "string list"

record Comment =
  comment_ID :: string
  comment_TaskID :: string
  comment_UserID :: string
  comment_Message :: string
  comment_Time :: time

record Attachment =
  attachment_ID :: string
  attachment_Name :: string
  attachment_Description :: string
  attachment_Type :: string
  attachment_TaskID :: string
  attachment_ProcessInstanceID :: string
  attachment_URL :: string
  attachment_Content :: "nat list"
  attachment_Time :: time

text \<open>
  The four maps of \<open>taskServiceImpl\<close>.  The mutex is not modelled: every operation below
  is one sequential step.  \<open>'v\<close> stands for the values held in \<open>interface{}\<close>.
\<close>

record 'v task_store =
  tasks :: "string \<rightharpoonup> Task"
  comments :: "string \<rightharpoonup> Comment list"
  attachments :: "string \<rightharpoonup> Attachment list"
  variables :: "string \<rightharpoonup> (string \<rightharpoonup> 'v)"

text \<open>The store \<open>NewTaskService\<close> fills in: four maps made empty.\<close>

definition NewTaskStore :: "'v task_store" where
  "NewTaskStore =
     \<lparr>tasks = Map.empty, comments = Map.empty, attachments = Map.empty, variables = Map.empty\<rparr>"

definition task_not_found :: "string \<Rightarrow> err" where
  "task_not_found taskID = Errorf (''task not found: '' @ taskID)"

definition already_claimed :: "string \<Rightarrow> err" where
  "already_claimed assignee = Errorf (''task is already claimed by another user: '' @ assignee)"

text \<open>
  Every operation returns the Go \<open>error\<close> (\<open>None\<close> for nil) and the store it leaves.
\<close>

definition NewTask :: "string \<Rightarrow> string \<Rightarrow> time \<Rightarrow> Task" where
  "NewTask taskID uuid now =
     \<lparr>ID = (if taskID = '''' then uuid else taskID), Name = '''', Description = '''',
      Priority = 5, Owner = '''', Assignee = '''', DueDate = None, Category = '''',
      FormKey = '''', ParentTaskID = '''', ProcessInstanceID = '''',
      ProcessDefinitionID = '''', ExecutionID = '''', TaskDefinitionKey = '''',
      CreateTime = now, ClaimTime = None, TenantID = '''', Suspended = False,
      CandidateUsers = [], CandidateGroups = []\<rparr>"

definition SaveTask :: "'v task_store \<Rightarrow> Task \<Rightarrow> string \<Rightarrow> err option \<times> 'v task_store" where
  "SaveTask s task uuid =
     (let task' = (if ID task = '''' then task\<lparr>ID := uuid\<rparr> else task)
      in (None, s\<lparr>tasks := (tasks s)(ID task' \<mapsto> task')\<rparr>))"

definition DeleteTask :: "'v task_store \<Rightarrow> string \<Rightarrow> err option \<times> 'v task_store" where
  "DeleteTask s taskID =
     (case tasks s taskID of
        None \<Rightarrow> (Some (task_not_found taskID), s)
      | Some _ \<Rightarrow>
          (None, s\<lparr>tasks := (tasks s)(taskID := None),
                    comments := (comments s)(taskID := None),
                    attachments := (attachments s)(taskID := None),
                    variables := (variables s)(taskID := None)\<rparr>))"

definition Claim :: "'v task_store \<Rightarrow> string \<Rightarrow> string \<Rightarrow> time \<Rightarrow> err option \<times> 'v task_store" where
  "Claim s taskID userID now =
     (case tasks s taskID of
        None \<Rightarrow> (Some (task_not_found taskID), s)
      | Some task \<Rightarrow>
          if Assignee task \<noteq> '''' \<and> Assignee task \<noteq> userID
          then (Some (already_claimed (Assignee task)), s)
          else (None, s\<lparr>tasks := (tasks s)(taskID \<mapsto> task\<lparr>Assignee := userID, ClaimTime := Some now\<rparr>)\<rparr>))"

definition Unclaim :: "'v task_store \<Rightarrow> string \<Rightarrow> err option \<times> 'v task_store" where
  "Unclaim s taskID =
     (case tasks s taskID of
        None \<Rightarrow> (Some (task_not_found taskID), s)
      | Some task \<Rightarrow>
          (None, s\<lparr>tasks := (tasks s)(taskID \<mapsto> task\<lparr>Assignee := '''', ClaimTime := None\<rparr>)\<rparr>))"

definition SetAssignee :: "'v task_store \<Rightarrow> string \<Rightarrow> string \<Rightarrow> err option \<times> 'v task_store" where
  "SetAssignee s taskID userID =
     (case tasks s taskID of
        None \<Rightarrow> (Some (task_not_found taskID), s)
      | Some task \<Rightarrow> (None, s\<lparr>tasks := (tasks s)(taskID \<mapsto> task\<lparr>Assignee := userID\<rparr>)\<rparr>))"

definition SetOwner :: "'v task_store \<Rightarrow> string \<Rightarrow> string \<Rightarrow> err option \<times> 'v task_store" where
  "SetOwner s taskID userID =
     (case tasks s taskID of
        None \<Rightarrow> (Some (task_not_found taskID), s)
      | Some task \<Rightarrow> (None, s\<lparr>tasks := (tasks s)(taskID \<mapsto> task\<lparr>Owner := userID\<rparr>)\<rparr>))"

text \<open>
  The scans of the candidate slices: adding returns early when the name is already in the slice, and
  removing cuts out the first match and stops.
\<close>

definition AddCandidateUser :: "'v task_store \<Rightarrow> string \<Rightarrow> string \<Rightarrow> err option \<times> 'v task_store" where
  "AddCandidateUser s taskID userID =
     (case tasks s taskID of
        None \<Rightarrow> (Some (task_not_found taskID), s)
      | Some task \<Rightarrow>
          if userID \<in> set (CandidateUsers task) then (None, s)
          else (None, s\<lparr>tasks := (tasks s)(taskID \<mapsto>
                  task\<lparr>CandidateUsers := CandidateUsers task @ [userID]\<rparr>)\<rparr>))"

definition AddCandidateGroup :: "'v task_store \<Rightarrow> string \<Rightarrow> string \<Rightarrow> err option \<times> 'v task_store" where
  "AddCandidateGroup s taskID groupID =
     (case tasks s taskID of
        None \<Rightarrow> (Some (task_not_found taskID), s)
      | Some task \<Rightarrow>
          if groupID \<in> set (CandidateGroups task) then (None, s)
          else (None, s\<lparr>tasks := (tasks s)(taskID \<mapsto>
                  task\<lparr>CandidateGroups := CandidateGroups task @ [groupID]\<rparr>)\<rparr>))"

definition DeleteCandidateUser :: "'v task_store \<Rightarrow> string \<Rightarrow> string \<Rightarrow> err option \<times> 'v task_store" where
  "DeleteCandidateUser s taskID userID =
     (case tasks s taskID of
        None \<Rightarrow> (Some (task_not_found taskID), s)
      | Some task \<Rightarrow>
          (None, s\<lparr>tasks := (tasks s)(taskID \<mapsto>
                  task\<lparr>CandidateUsers := remove1 userID (CandidateUsers task)\<rparr>)\<rparr>))"

definition DeleteCandidateGroup :: "'v task_store \<Rightarrow> string \<Rightarrow> string \<Rightarrow> err option \<times> 'v task_store" where
  "DeleteCandidateGroup s taskID groupID =
     (case tasks s taskID of
        None \<Rightarrow> (Some (task_not_found taskID), s)
      | Some task \<Rightarrow>
          (None, s\<lparr>tasks := (tasks s)(taskID \<mapsto>
                  task\<lparr>CandidateGroups := remove1 groupID (CandidateGroups task)\<rparr>)\<rparr>))"

definition SetPriority :: "'v task_store \<Rightarrow> string \<Rightarrow> int \<Rightarrow> err option \<times> 'v task_store" where
  "SetPriority s taskID priority =
     (case tasks s taskID of
        None \<Rightarrow> (Some (task_not_found taskID), s)
      | Some task \<Rightarrow> (None, s\<lparr>tasks := (tasks s)(taskID \<mapsto> task\<lparr>Priority := priority\<rparr>)\<rparr>))"

definition SetDueDate :: "'v task_store \<Rightarrow> string \<Rightarrow> time \<Rightarrow> err option \<times> 'v task_store" where
  "SetDueDate s taskID dueDate =
     (case tasks s taskID of
        None \<Rightarrow> (Some (task_not_found taskID), s)
      | Some task \<Rightarrow> (None, s\<lparr>tasks := (tasks s)(taskID \<mapsto> task\<lparr>DueDate := Some dueDate\<rparr>)\<rparr>))"

text \<open>
  Task variables, comments and attachments live in their own maps, keyed by task ID.
  A missing key reads as the nil map or the nil slice.
\<close>

definition GetTaskVariables :: "'v task_store \<Rightarrow> string \<Rightarrow> err + (string \<rightharpoonup> 'v)" where
  "GetTaskVariables s taskID =
     (case tasks s taskID of
        None \<Rightarrow> Inl (task_not_found taskID)
      | Some _ \<Rightarrow> Inr (case variables s taskID of None \<Rightarrow> Map.empty | Some m \<Rightarrow> m))"

definition SetTaskVariable :: "'v task_store \<Rightarrow> string \<Rightarrow> string \<Rightarrow> 'v \<Rightarrow> err option \<times> 'v task_store" where
  "SetTaskVariable s taskID variableName val =
     (case tasks s taskID of
        None \<Rightarrow> (Some (task_not_found taskID), s)
      | Some _ \<Rightarrow>
          (let m = (case variables s taskID of None \<Rightarrow> Map.empty | Some m \<Rightarrow> m)
           in (None, s\<lparr>variables := (variables s)(taskID \<mapsto> m(variableName \<mapsto> val))\<rparr>)))"

definition SetTaskVariables ::
  "'v task_store \<Rightarrow> string \<Rightarrow> (string \<rightharpoonup> 'v) \<Rightarrow> err option \<times> 'v task_store" where
  "SetTaskVariables s taskID vars =
     (case tasks s taskID of
        None \<Rightarrow> (Some (task_not_found taskID), s)
      | Some _ \<Rightarrow>
          (let m = (case variables s taskID of None \<Rightarrow> Map.empty | Some m \<Rightarrow> m)
           in (None, s\<lparr>variables := (variables s)(taskID \<mapsto> m ++ vars)\<rparr>)))"

definition RemoveTaskVariable ::
  "'v task_store \<Rightarrow> string \<Rightarrow> string \<Rightarrow> err option \<times> 'v task_store" where
  "RemoveTaskVariable s taskID variableName =
     (case tasks s taskID of
        None \<Rightarrow> (Some (task_not_found taskID), s)
      | Some _ \<Rightarrow>
          (case variables s taskID of
             None \<Rightarrow> (None, s)
           | Some m \<Rightarrow> (None, s\<lparr>variables := (variables s)(taskID \<mapsto> m(variableName := None))\<rparr>)))"

definition AddComment ::
  "'v task_store \<Rightarrow> string \<Rightarrow> string \<Rightarrow> string \<Rightarrow> time \<Rightarrow> (err + Comment) \<times> 'v task_store" where
  "AddComment s taskID message uuid now =
     (case tasks s taskID of
        None \<Rightarrow> (Inl (task_not_found taskID), s)
      | Some _ \<Rightarrow>
          (let comment = \<lparr>comment_ID = uuid, comment_TaskID = taskID, comment_UserID = '''',
                           comment_Message = message, comment_Time = now\<rparr>
           in (Inr comment,
               s\<lparr>comments := (comments s)(taskID \<mapsto>
                    (case comments s taskID of None \<Rightarrow> [] | Some cs \<Rightarrow> cs) @ [comment])\<rparr>)))"

definition GetTaskComments :: "'v task_store \<Rightarrow> string \<Rightarrow> err + Comment list" where
  "GetTaskComments s taskID =
     (case tasks s taskID of
        None \<Rightarrow> Inl (task_not_found taskID)
      | Some _ \<Rightarrow> Inr (case comments s taskID of None \<Rightarrow> [] | Some cs \<Rightarrow> cs))"

definition CreateAttachment ::
  "'v task_store \<Rightarrow> string \<Rightarrow> string \<Rightarrow> string \<Rightarrow> string \<Rightarrow> nat list \<Rightarrow> string \<Rightarrow> time
     \<Rightarrow> (err + Attachment) \<times> 'v task_store" where
  "CreateAttachment s taskID attachmentType attachmentName attachmentDescription content uuid now =
     (case tasks s taskID of
        None \<Rightarrow> (Inl (task_not_found taskID), s)
      | Some task \<Rightarrow>
          (let attachment =
                 \<lparr>attachment_ID = uuid, attachment_Name = attachmentName,
                  attachment_Description = attachmentDescription,
                  attachment_Type = attachmentType, attachment_TaskID = taskID,
                  attachment_ProcessInstanceID = ProcessInstanceID task,
                  attachment_URL = '''', attachment_Content = content,
                  attachment_Time = now\<rparr>
           in (Inr attachment,
               s\<lparr>attachments := (attachments s)(taskID \<mapsto>
                    (case attachments s taskID of None \<Rightarrow> [] | Some as \<Rightarrow> as) @ [attachment])\<rparr>)))"

definition GetTaskAttachments :: "'v task_store \<Rightarrow> string \<Rightarrow> err + Attachment list" where
  "GetTaskAttachments s taskID =
     (case tasks s taskID of
        None \<Rightarrow> Inl (task_not_found taskID)
      | Some _ \<Rightarrow> Inr (case attachments s taskID of None \<Rightarrow> [] | Some as \<Rightarrow> as))"

text \<open>
  \<open>DeleteAttachment\<close> ranges over the attachments map and, in each slice, over its
  elements; at the first element with the given ID it cuts the element out and returns.
  Go leaves the order of a range over a map open: \<open>order\<close> is the order in which the keys
  come up in this run.
\<close>

definition attachment_not_found :: "string \<Rightarrow> err" where
  "attachment_not_found attachmentID = Errorf (''attachment not found: '' @ attachmentID)"

fun cut_attachment :: "string \<Rightarrow> Attachment list \<Rightarrow> Attachment list option" where
  "cut_attachment attachmentID [] = None"
| "cut_attachment attachmentID (att # atts) =
     (if attachment_ID att = attachmentID then Some atts
      else map_option ((#) att) (cut_attachment attachmentID atts))"

fun DeleteAttachment ::
  "'v task_store \<Rightarrow> string \<Rightarrow> string list \<Rightarrow> err option \<times> 'v task_store" where
  "DeleteAttachment s attachmentID [] = (Some (attachment_not_found attachmentID), s)"
| "DeleteAttachment s attachmentID (taskID # order) =
     (case attachments s taskID of
        None \<Rightarrow> DeleteAttachment s attachmentID order
      | Some atts \<Rightarrow>
          (case cut_attachment attachmentID atts of
             None \<Rightarrow> DeleteAttachment s attachmentID order
           | Some atts' \<Rightarrow> (None, s\<lparr>attachments := (attachments s)(taskID \<mapsto> atts')\<rparr>)))"

section \<open>Go maps as heap objects\<close>

text \<open>
  A Go map value is a reference: passing \<open>map[string]interface{}\<close> to a function passes the
  object, not its entries.  The runtime store is handed such maps by its callers and keeps
  maps of its own, so maps are modelled as cells of a heap.  \<open>next_ref\<close> is the first
  reference that \<open>make\<close> has not handed out yet; a map variable is a \<open>ref option\<close>, with
  \<open>None\<close> for the nil map.
\<close>

type_synonym ref = nat

record 'v heap =
  cells :: "ref \<Rightarrow> (string \<rightharpoonup> 'v)"
  next_ref :: ref

definition empty_heap :: "'v heap" where
  "empty_heap = \<lparr>cells = (\<lambda>_. Map.empty), next_ref = 0\<rparr>"

text \<open>A reference is allocated when \<open>make\<close> has handed it out.\<close>

definition allocated :: "'v heap \<Rightarrow> ref \<Rightarrow> bool" where
  "allocated h r = (r < next_ref h)"

text \<open>\<open>make(map[string]interface{})\<close>\<close>

definition make_map :: "'v heap \<Rightarrow> ref \<times> 'v heap" where
  "make_map h =
     (next_ref h, h\<lparr>cells := (cells h)(next_ref h := Map.empty), next_ref := Suc (next_ref h)\<rparr>)"

text \<open>The entries a \<open>range\<close> loop sees; ranging over the nil map sees none.\<close>

definition entries :: "'v heap \<Rightarrow> ref option \<Rightarrow> (string \<rightharpoonup> 'v)" where
  "entries h m = (case m of None \<Rightarrow> Map.empty | Some r \<Rightarrow> cells h r)"

text \<open>
  \<open>for k, v := range src { dst[k] = v }\<close>: every entry of \<open>src\<close> is stored into the object
  \<open>dst\<close>, overwriting what \<open>dst\<close> held under the same key.
\<close>

definition copy_entries :: "'v heap \<Rightarrow> ref \<Rightarrow> ref option \<Rightarrow> 'v heap" where
  "copy_entries h dst src = h\<lparr>cells := (cells h)(dst := cells h dst ++ entries h src)\<rparr>"

section \<open>The runtime store (package runtime, \<open>runtimeServiceImpl\<close>)\<close>

record ProcessDefinition =
  pd_ID :: string
  pd_Key :: string
  pd_Name :: string
  pd_Description :: string
  pd_Version :: int
  pd_Category :: string
  pd_DeploymentID :: string
  pd_ResourceName :: string
  pd_TenantID :: string
  pd_Suspended :: bool
  pd_StartFormKey :: string
  pd_HasStartFormKey :: bool
  pd_HasGraphicalNotation :: bool

record ProcessInstance =
  pi_ID :: string
  pi_ProcessDefinitionID :: string
  pi_ProcessDefinitionKey :: string
  pi_ProcessDefinitionName :: string
  pi_BusinessKey :: string
  pi_StartTime :: time
  pi_EndTime :: "time option"
  pi_StartUserID :: string
  pi_Suspended :: bool
  pi_TenantID :: string
  pi_RootProcessInstanceID :: string
  pi_ParentProcessInstanceID :: string

record Execution =
  ex_ID :: string
  ex_ProcessInstanceID :: string
  ex_ParentID :: string
  ex_ActivityID :: string
  ex_IsActive :: bool
  ex_IsConcurrent :: bool
  ex_IsScope :: bool
  ex_IsEventScope :: bool
  ex_Suspended :: bool
  ex_TenantID :: string

text \<open>
  The three maps of \<open>runtimeServiceImpl\<close>.  \<open>scopes\<close> is the field \<open>variables\<close> of the
  source (execution ID to variable map); the name \<open>variables\<close> is taken by the task store.
\<close>

record runtime_store =
  processInstances :: "string \<rightharpoonup> ProcessInstance"
  executions :: "string \<rightharpoonup> Execution"
  scopes :: "string \<rightharpoonup> ref"

text \<open>The store \<open>NewRuntimeService\<close> fills in.\<close>

definition NewRuntimeStore :: runtime_store where
  "NewRuntimeStore = \<lparr>processInstances = Map.empty, executions = Map.empty, scopes = Map.empty\<rparr>"

text \<open>
  Go has no dangling references: every scope the store holds is a map that was made.
\<close>

definition scopes_allocated :: "'v heap \<Rightarrow> runtime_store \<Rightarrow> bool" where
  "scopes_allocated h s = (\<forall>executionID r. scopes s executionID = Some r \<longrightarrow> allocated h r)"

definition quoted :: "string \<Rightarrow> string" where
  "quoted s = [CHR 0x27] @ s @ [CHR 0x27]"

definition definition_suspended :: "string \<Rightarrow> err" where
  "definition_suspended processDefinitionID =
     Errorf (''process definition '' @ quoted processDefinitionID @ '' is suspended'')"

definition process_instance_not_found :: "string \<Rightarrow> err" where
  "process_instance_not_found processInstanceID =
     Errorf (''process instance not found: '' @ processInstanceID)"

definition execution_not_found :: "string \<Rightarrow> err" where
  "execution_not_found executionID = Errorf (''execution not found: '' @ executionID)"

text \<open>
  \<open>startProcessInstance\<close>.  \<open>uuid\<close> is the string \<open>uuid.New()\<close> returns and \<open>now\<close> the
  reading of \<open>time.Now()\<close>.
\<close>

definition startProcessInstance ::
  "'v heap \<Rightarrow> runtime_store \<Rightarrow> ProcessDefinition \<Rightarrow> string \<Rightarrow> ref option \<Rightarrow> string \<Rightarrow> time
     \<Rightarrow> (err + ProcessInstance) \<times> 'v heap \<times> runtime_store" where
  "startProcessInstance h s processDefinition businessKey vars uuid now =
     (if pd_Suspended processDefinition
      then (Inl (definition_suspended (pd_ID processDefinition)), h, s)
      else
        let processInstance =
              \<lparr>pi_ID = uuid,
               pi_ProcessDefinitionID = pd_ID processDefinition,
               pi_ProcessDefinitionKey = pd_Key processDefinition,
               pi_ProcessDefinitionName = pd_Name processDefinition,
               pi_BusinessKey = businessKey,
               pi_StartTime = now,
               pi_EndTime = None,
               pi_StartUserID = '''',
               pi_Suspended = False,
               pi_TenantID = pd_TenantID processDefinition,
               pi_RootProcessInstanceID = uuid,
               pi_ParentProcessInstanceID = ''''\<rparr>;
            execution =
              \<lparr>ex_ID = pi_ID processInstance,
               ex_ProcessInstanceID = pi_ID processInstance,
               ex_ParentID = '''',
               ex_ActivityID = '''',
               ex_IsActive = True,
               ex_IsConcurrent = False,
               ex_IsScope = True,
               ex_IsEventScope = False,
               ex_Suspended = False,
               ex_TenantID = pd_TenantID processDefinition\<rparr>;
            s1 = s\<lparr>processInstances := (processInstances s)(pi_ID processInstance \<mapsto> processInstance),
                   executions := (executions s)(ex_ID execution \<mapsto> execution)\<rparr>
        in case vars of
             None \<Rightarrow> (Inr processInstance, h, s1)
           | Some src \<Rightarrow>
               let (r, h1) = make_map h;
                   s2 = s1\<lparr>scopes := (scopes s1)(ex_ID execution \<mapsto> r)\<rparr>
               in (Inr processInstance, copy_entries h1 r (Some src), s2))"

text \<open>
  \<open>DeleteProcessInstance\<close>.  The loop ranges over \<open>s.executions\<close> and, at every key whose
  execution belongs to the instance, deletes that key from \<open>executions\<close> and from
  \<open>variables\<close>; all other keys of both maps are left as they are.
\<close>

definition DeleteProcessInstance ::
  "runtime_store \<Rightarrow> string \<Rightarrow> string \<Rightarrow> err option \<times> runtime_store" where
  "DeleteProcessInstance s processInstanceID deleteReason =
     (case processInstances s processInstanceID of
        None \<Rightarrow> (Some (process_instance_not_found processInstanceID), s)
      | Some _ \<Rightarrow>
          (None,
           s\<lparr>executions :=
                (\<lambda>id. case executions s id of
                         None \<Rightarrow> None
                       | Some exec \<Rightarrow>
                           if ex_ProcessInstanceID exec = processInstanceID then None
                           else Some exec),
              scopes :=
                (\<lambda>id. case executions s id of
                         None \<Rightarrow> scopes s id
                       | Some exec \<Rightarrow>
                           if ex_ProcessInstanceID exec = processInstanceID then None
                           else scopes s id),
              processInstances := (processInstances s)(processInstanceID := None)\<rparr>))"

definition GetProcessInstance :: "runtime_store \<Rightarrow> string \<Rightarrow> err + ProcessInstance" where
  "GetProcessInstance s processInstanceID =
     (case processInstances s processInstanceID of
        None \<Rightarrow> Inl (process_instance_not_found processInstanceID)
      | Some processInstance \<Rightarrow> Inr processInstance)"

text \<open>
  \<open>if s.variables[executionID] == nil { s.variables[executionID] = make(...) }\<close>, followed by
  the read of \<open>s.variables[executionID]\<close>: the reference of the scope, the heap and the store.
\<close>

definition ensure_scope ::
  "'v heap \<Rightarrow> runtime_store \<Rightarrow> string \<Rightarrow> ref \<times> 'v heap \<times> runtime_store" where
  "ensure_scope h s executionID =
     (case scopes s executionID of
        Some r \<Rightarrow> (r, h, s)
      | None \<Rightarrow>
          let (r, h1) = make_map h
          in (r, h1, s\<lparr>scopes := (scopes s)(executionID \<mapsto> r)\<rparr>))"

definition SetVariables ::
  "'v heap \<Rightarrow> runtime_store \<Rightarrow> string \<Rightarrow> ref option \<Rightarrow> err option \<times> 'v heap \<times> runtime_store" where
  "SetVariables h s executionID vars =
     (case executions s executionID of
        None \<Rightarrow> (Some (execution_not_found executionID), h, s)
      | Some _ \<Rightarrow>
          let (r, h1, s1) = ensure_scope h s executionID
          in (None, copy_entries h1 r vars, s1))"

text \<open>\<open>GetVariables\<close> returns a map it has just made, filled from the stored scope.\<close>

definition GetVariables ::
  "'v heap \<Rightarrow> runtime_store \<Rightarrow> string \<Rightarrow> (err + ref) \<times> 'v heap" where
  "GetVariables h s executionID =
     (case executions s executionID of
        None \<Rightarrow> (Inl (execution_not_found executionID), h)
      | Some _ \<Rightarrow>
          let (result, h1) = make_map h
          in (Inr result,
              (case scopes s executionID of
                 None \<Rightarrow> h1
               | Some r \<Rightarrow> copy_entries h1 result (Some r))))"

definition SignalWithVariables ::
  "'v heap \<Rightarrow> runtime_store \<Rightarrow> string \<Rightarrow> ref option \<Rightarrow> err option \<times> 'v heap \<times> runtime_store" where
  "SignalWithVariables h s executionID vars =
     (case executions s executionID of
        None \<Rightarrow> (Some (execution_not_found executionID), h, s)
      | Some execution \<Rightarrow>
          (case vars of
             None \<Rightarrow> (None, h, s)
           | Some src \<Rightarrow>
               let (r, h1, s1) = ensure_scope h s executionID
               in (None, copy_entries h1 r (Some src), s1)))"

definition Signal ::
  "'v heap \<Rightarrow> runtime_store \<Rightarrow> string \<Rightarrow> err option \<times> 'v heap \<times> runtime_store" where
  "Signal h s executionID = SignalWithVariables h s executionID None"

section \<open>Completing a task\<close>

text \<open>
  \<open>CompleteWithVariables\<close> reads the task, calls into the runtime service the task service
  holds, and then deletes from \<open>s.tasks\<close>.  The state is the heap, the runtime store and the
  task store.
\<close>

definition CompleteWithVariables ::
  "'v heap \<Rightarrow> runtime_store \<Rightarrow> 'w task_store \<Rightarrow> string \<Rightarrow> ref option
     \<Rightarrow> err option \<times> 'v heap \<times> runtime_store \<times> 'w task_store" where
  "CompleteWithVariables h rs s taskID vars =
     (case tasks s taskID of
        None \<Rightarrow> (Some (task_not_found taskID), h, rs, s)
      | Some task \<Rightarrow>
          let (err1, h1, rs1) =
                (if vars \<noteq> None \<and> ExecutionID task \<noteq> ''''
                 then SetVariables h rs (ExecutionID task) vars
                 else (None, h, rs))
          in (case err1 of
                Some e \<Rightarrow> (Some (Wrapf ''failed to set variables: '' e), h1, rs1, s)
              | None \<Rightarrow>
                 (let (err2, h2, rs2) =
                        (if ExecutionID task \<noteq> ''''
                         then Signal h1 rs1 (ExecutionID task)
                         else (None, h1, rs1))
                  in (case err2 of
                        Some e \<Rightarrow> (Some (Wrapf ''failed to signal execution: '' e), h2, rs2, s)
                      | None \<Rightarrow> (None, h2, rs2, s\<lparr>tasks := (tasks s)(taskID := None)\<rparr>)))))"

definition Complete ::
  "'v heap \<Rightarrow> runtime_store \<Rightarrow> 'w task_store \<Rightarrow> string
     \<Rightarrow> err option \<times> 'v heap \<times> runtime_store \<times> 'w task_store" where
  "Complete h rs s taskID = CompleteWithVariables h rs s taskID None"

section \<open>Sequences of task operations\<close>

text \<open>
  The mutating operations of the task service as a datatype, so that "any sequence of
  operations" is a list.  \<open>Complete\<close> is \<open>CompleteWithVariables\<close> with the nil map.
\<close>

datatype 'w task_op =
    OpSaveTask Task string
  | OpDeleteTask string
  | OpClaim string string time
  | OpUnclaim string
  | OpCompleteWithVariables string "ref option"
  | OpSetAssignee string string
  | OpSetOwner string string
  | OpAddCandidateUser string string
  | OpAddCandidateGroup string string
  | OpDeleteCandidateUser string string
  | OpDeleteCandidateGroup string string
  | OpSetPriority string int
  | OpSetDueDate string time
  | OpSetTaskVariable string string 'w
  | OpSetTaskVariables string "string \<rightharpoonup> 'w"
  | OpRemoveTaskVariable string string
  | OpAddComment string string string time
  | OpCreateAttachment string string string string "nat list" string time
  | OpDeleteAttachment string "string list"

text \<open>One operation; an operation that returns an error leaves the state it returns.\<close>

fun task_step ::
  "'w task_op \<Rightarrow> 'v heap \<times> runtime_store \<times> 'w task_store
     \<Rightarrow> 'v heap \<times> runtime_store \<times> 'w task_store" where
  "task_step (OpSaveTask task uuid) (h, rs, s) = (h, rs, snd (SaveTask s task uuid))"
| "task_step (OpDeleteTask taskID) (h, rs, s) = (h, rs, snd (DeleteTask s taskID))"
| "task_step (OpClaim taskID userID now) (h, rs, s) = (h, rs, snd (Claim s taskID userID now))"
| "task_step (OpUnclaim taskID) (h, rs, s) = (h, rs, snd (Unclaim s taskID))"
| "task_step (OpCompleteWithVariables taskID vars) (h, rs, s) =
     snd (CompleteWithVariables h rs s taskID vars)"
| "task_step (OpSetAssignee taskID userID) (h, rs, s) = (h, rs, snd (SetAssignee s taskID userID))"
| "task_step (OpSetOwner taskID userID) (h, rs, s) = (h, rs, snd (SetOwner s taskID userID))"
| "task_step (OpAddCandidateUser taskID userID) (h, rs, s) =
     (h, rs, snd (AddCandidateUser s taskID userID))"
| "task_step (OpAddCandidateGroup taskID groupID) (h, rs, s) =
     (h, rs, snd (AddCandidateGroup s taskID groupID))"
| "task_step (OpDeleteCandidateUser taskID userID) (h, rs, s) =
     (h, rs, snd (DeleteCandidateUser s taskID userID))"
| "task_step (OpDeleteCandidateGroup taskID groupID) (h, rs, s) =
     (h, rs, snd (DeleteCandidateGroup s taskID groupID))"
| "task_step (OpSetPriority taskID priority) (h, rs, s) = (h, rs, snd (SetPriority s taskID priority))"
| "task_step (OpSetDueDate taskID dueDate) (h, rs, s) = (h, rs, snd (SetDueDate s taskID dueDate))"
| "task_step (OpSetTaskVariable taskID variableName val) (h, rs, s) =
     (h, rs, snd (SetTaskVariable s taskID variableName val))"
| "task_step (OpSetTaskVariables taskID vars) (h, rs, s) =
     (h, rs, snd (SetTaskVariables s taskID vars))"
| "task_step (OpRemoveTaskVariable taskID variableName) (h, rs, s) =
     (h, rs, snd (RemoveTaskVariable s taskID variableName))"
| "task_step (OpAddComment taskID message uuid now) (h, rs, s) =
     (h, rs, snd (AddComment s taskID message uuid now))"
| "task_step (OpCreateAttachment taskID attachmentType attachmentName attachmentDescription
       content uuid now) (h, rs, s) =
     (h, rs, snd (CreateAttachment s taskID attachmentType attachmentName attachmentDescription
                    content uuid now))"
| "task_step (OpDeleteAttachment attachmentID order) (h, rs, s) =
     (h, rs, snd (DeleteAttachment s attachmentID order))"

primrec run_ops ::
  "'w task_op list \<Rightarrow> 'v heap \<times> runtime_store \<times> 'w task_store
     \<Rightarrow> 'v heap \<times> runtime_store \<times> 'w task_store" where
  "run_ops [] st = st"
| "run_ops (op # ops) st = run_ops ops (task_step op st)"

text \<open>The invariant of a task, and of every task of a store.\<close>

definition claim_invariant :: "Task \<Rightarrow> bool" where
  "claim_invariant task = ((ClaimTime task \<noteq> None) = (Assignee task \<noteq> ''''))"

definition tasks_invariant :: "'w task_store \<Rightarrow> bool" where
  "tasks_invariant s = (\<forall>taskID task. tasks s taskID = Some task \<longrightarrow> claim_invariant task)"

text \<open>
  When an operation, run on the store \<open>s\<close>, keeps the two fields in step.  \<open>SaveTask\<close>
  stores the task it is given, so that task must satisfy the invariant.  \<open>SetAssignee\<close>
  writes the assignee alone, so the new assignee must be non-empty exactly when the task
  has a claim time.  \<open>Claim\<close> stamps a claim time whatever the user is, so with the empty
  user the task must be one it refuses (already assigned).  An operation on a task that
  is not in the store changes nothing, and no other operation writes either field
  without the other.
\<close>

fun keeps_claim_invariant :: "'w task_store \<Rightarrow> 'w task_op \<Rightarrow> bool" where
  "keeps_claim_invariant s (OpSaveTask task uuid) = claim_invariant task"
| "keeps_claim_invariant s (OpSetAssignee taskID userID) =
     (case tasks s taskID of
        None \<Rightarrow> True
      | Some task \<Rightarrow> (userID \<noteq> '''') = (ClaimTime task \<noteq> None))"
| "keeps_claim_invariant s (OpClaim taskID userID now) =
     (case tasks s taskID of
        None \<Rightarrow> True
      | Some task \<Rightarrow> userID \<noteq> '''' \<or> Assignee task \<noteq> '''')"
| "keeps_claim_invariant s _ = True"

text \<open>The condition along a sequence: each operation is judged on the store it runs on.\<close>

fun keeps_claim_invariant_along ::
  "'w task_op list \<Rightarrow> 'v heap \<times> runtime_store \<times> 'w task_store \<Rightarrow> bool" where
  "keeps_claim_invariant_along [] st = True"
| "keeps_claim_invariant_along (op # ops) (h, rs, s) =
     (keeps_claim_invariant s op \<and> keeps_claim_invariant_along ops (task_step op (h, rs, s)))"

text \<open>
  A store built through the service: one saved task with a comment, an attachment and
  a variable.
\<close>

definition commented_store :: "int task_store" where
  "commented_store =
     (let (_, s1) = SaveTask NewTaskStore (NewTask ''t1'' ''uuid-0'' 10) ''uuid-1'';
          (_, s2) = AddComment s1 ''t1'' ''please review'' ''uuid-2'' 11;
          (_, s3) = CreateAttachment s2 ''t1'' ''text'' ''notes'' '''' [104, 105] ''uuid-3'' 12;
          (_, s4) = SetTaskVariable s3 ''t1'' ''approved'' 1
      in s4)"

section \<open>The command pipeline (package engine)\<close>

text \<open>
  The Go \<open>context.Context\<close> as the engine sees it: whatever the caller put in it (\<open>'c\<close>:
  deadline, cancellation, other values), and the value stored under \<open>commandContextKey\<close>,
  if any.  The \<open>CommandContext\<close> struct keeps the context it was made from, so the two types
  are defined together.  \<open>'e\<close> is the engine and \<open>'v\<close> the values held in \<open>interface{}\<close>.
\<close>

datatype ('c, 'e, 'v) ctx =
  Ctx (caller_context: 'c) (command_context_value: "('c, 'e, 'v) CommandContext option")
and ('c, 'e, 'v) CommandContext =
  CommandContext
    (cc_Context: "('c, 'e, 'v) ctx")
    (cc_Engine: 'e)
    (cc_Session: "'v option")
    (cc_Attributes: "string \<rightharpoonup> 'v")
    (cc_Exception: "err option")
    (cc_Result: "'v option")

text \<open>\<open>NewCommandContext\<close>, the two setters the ContextInterceptor calls, and the context lookups.\<close>

definition NewCommandContext :: "('c, 'e, 'v) ctx \<Rightarrow> 'e \<Rightarrow> ('c, 'e, 'v) CommandContext" where
  "NewCommandContext ctx engine = CommandContext ctx engine None Map.empty None None"

fun SetException :: "('c, 'e, 'v) CommandContext \<Rightarrow> err \<Rightarrow> ('c, 'e, 'v) CommandContext" where
  "SetException (CommandContext ctx engine session attrs exception result) e =
     CommandContext ctx engine session attrs (Some e) result"

fun SetResult :: "('c, 'e, 'v) CommandContext \<Rightarrow> 'v option \<Rightarrow> ('c, 'e, 'v) CommandContext" where
  "SetResult (CommandContext ctx engine session attrs exception result) r =
     CommandContext ctx engine session attrs exception r"

text \<open>
  \<open>context.WithValue(ctx, commandContextKey, commandContext)\<close> and \<open>GetCommandContext\<close>,
  whose type assertion fails exactly when no CommandContext is stored.
\<close>

definition WithCommandContext ::
  "('c, 'e, 'v) ctx \<Rightarrow> ('c, 'e, 'v) CommandContext \<Rightarrow> ('c, 'e, 'v) ctx" where
  "WithCommandContext ctx commandContext = Ctx (caller_context ctx) (Some commandContext)"

definition GetCommandContext :: "('c, 'e, 'v) ctx \<Rightarrow> ('c, 'e, 'v) CommandContext option" where
  "GetCommandContext ctx = command_context_value ctx"

text \<open>
  A command: the name \<open>%T\<close> prints for it, and its \<open>Execute\<close> method.  \<open>Execute\<close> is given
  the context and the CommandContext, acts on the world \<open>'s\<close> (the stores of the engine's
  services) and returns the Go pair of result and error.  Commands are taken to return.
\<close>

record ('c, 'e, 'v, 's) command =
  type_name :: string
  Execute :: "('c, 'e, 'v) ctx \<Rightarrow> ('c, 'e, 'v) CommandContext \<Rightarrow> 's
                \<Rightarrow> ('v option \<times> err option) \<times> 's"

text \<open>
  What an execution leaves behind besides its return value: the lines written to the
  logger (durations are clock readings and are left out of the lines), the world, and a
  trace.  The trace has no counterpart in the source: it records, in order, which
  interceptor's \<open>Execute\<close> was entered and which component called \<open>command.Execute\<close>, and
  nothing reads it.
\<close>

datatype kind = Logging | Retry | Custom | Transaction | Context | Invoker

datatype event = Entered kind | Executed_command kind

datatype log_line =
    Executing string
  | Failed string err
  | Completed string
  | Retrying int int

record 's exec_state =
  log_lines :: "log_line list"
  trace :: "event list"
  world :: 's

text \<open>
  A call returns the Go pair \<open>(interface{}, error)\<close> or panics.  \<open>next_Execute\<close> is the type
  of \<open>i.next.Execute(ctx, command, executor)\<close> as a function of context, command and state.
\<close>

datatype 'v outcome = Return "'v option" "err option" | Panic string

type_synonym ('c, 'e, 'v, 's) next_Execute =
  "('c, 'e, 'v) ctx \<Rightarrow> ('c, 'e, 'v, 's) command \<Rightarrow> 's exec_state
     \<Rightarrow> 'v outcome \<times> 's exec_state"

text \<open>
  The interceptors.  A custom interceptor is any code that is handed the rest of the
  chain.
\<close>

datatype ('c, 'e, 'v, 's) interceptor =
    LoggingInterceptor
  | RetryInterceptor int
  | CustomInterceptor "('c, 'e, 'v, 's) next_Execute \<Rightarrow> ('c, 'e, 'v, 's) next_Execute"
  | TransactionInterceptor
  | ContextInterceptor 'e
  | CommandInvoker

text \<open>Writing a log line, recording entry, and calling \<open>command.Execute\<close> on behalf of a component.\<close>

definition printf :: "'s exec_state \<Rightarrow> log_line \<Rightarrow> 's exec_state" where
  "printf s line = s\<lparr>log_lines := log_lines s @ [line]\<rparr>"

definition enter :: "'s exec_state \<Rightarrow> kind \<Rightarrow> 's exec_state" where
  "enter s k = s\<lparr>trace := trace s @ [Entered k]\<rparr>"

definition command_Execute ::
  "kind \<Rightarrow> ('c, 'e, 'v, 's) command \<Rightarrow> ('c, 'e, 'v) ctx \<Rightarrow> ('c, 'e, 'v) CommandContext
     \<Rightarrow> 's exec_state \<Rightarrow> ('v option \<times> err option) \<times> 's exec_state" where
  "command_Execute caller command ctx commandContext s =
     (let (r, w) = Execute command ctx commandContext (world s)
      in (r, s\<lparr>trace := trace s @ [Executed_command caller], world := w\<rparr>))"

text \<open>Calling \<open>Execute\<close> on a nil \<open>next\<close> panics.\<close>

definition nil_dereference :: string where
  "nil_dereference = ''runtime error: invalid memory address or nil pointer dereference''"

definition nil_next :: "('c, 'e, 'v, 's) next_Execute" where
  "nil_next ctx command s = (Panic nil_dereference, s)"

text \<open>\<open>LoggingInterceptor.Execute\<close>: log, forward, log the outcome, return what came back.\<close>

definition LoggingInterceptor_Execute ::
  "('c, 'e, 'v, 's) next_Execute \<Rightarrow> ('c, 'e, 'v, 's) next_Execute" where
  "LoggingInterceptor_Execute next ctx command s0 =
     (let s = enter s0 Logging;
          commandName = type_name command;
          s1 = printf s (Executing commandName);
          (out, s2) = next ctx command s1
      in case out of
           Panic p \<Rightarrow> (Panic p, s2)
         | Return result err \<Rightarrow>
             (case err of
                Some e \<Rightarrow> (Return result err, printf s2 (Failed commandName e))
              | None \<Rightarrow> (Return result err, printf s2 (Completed commandName))))"

text \<open>\<open>TransactionInterceptor.Execute\<close>: forward; on an error return nil and the error.\<close>

definition TransactionInterceptor_Execute ::
  "('c, 'e, 'v, 's) next_Execute \<Rightarrow> ('c, 'e, 'v, 's) next_Execute" where
  "TransactionInterceptor_Execute next ctx command s0 =
     (let s = enter s0 Transaction;
          (out, s1) = next ctx command s
      in case out of
           Panic p \<Rightarrow> (Panic p, s1)
         | Return result err \<Rightarrow>
             (case err of
                Some e \<Rightarrow> (Return None (Some e), s1)
              | None \<Rightarrow> (Return result None, s1)))"

text \<open>
  \<open>ContextInterceptor.Execute\<close>: make the CommandContext, store it in the context, call
  \<open>command.Execute\<close>, record the exception or the result in the CommandContext (which is
  then dropped; the deferred \<open>Close\<close> does nothing).  \<open>next\<close> is not called.
\<close>

definition ContextInterceptor_Execute ::
  "'e \<Rightarrow> ('c, 'e, 'v, 's) next_Execute \<Rightarrow> ('c, 'e, 'v, 's) next_Execute" where
  "ContextInterceptor_Execute engine next ctx0 command s0 =
     (let s = enter s0 Context;
          commandContext = NewCommandContext ctx0 engine;
          ctx = WithCommandContext ctx0 commandContext;
          ((result, err), s1) = command_Execute Context command ctx commandContext s
      in case err of
           Some e \<Rightarrow> (let commandContext1 = SetException commandContext e
                      in (Return None (Some e), s1))
         | None \<Rightarrow> (let commandContext1 = SetResult commandContext result
                    in (Return result None, s1)))"

text \<open>\<open>CommandInvoker.Execute\<close>: look the CommandContext up and call \<open>command.Execute\<close>.\<close>

definition context_missing :: err where
  "context_missing = Errorf ''command context not found in context''"

definition CommandInvoker_Execute ::
  "('c, 'e, 'v, 's) next_Execute \<Rightarrow> ('c, 'e, 'v, 's) next_Execute" where
  "CommandInvoker_Execute next ctx command s0 =
     (let s = enter s0 Invoker
      in case GetCommandContext ctx of
           None \<Rightarrow> (Return None (Some context_missing), s)
         | Some commandContext \<Rightarrow>
             (let ((result, err), s1) = command_Execute Invoker command ctx commandContext s
              in (Return result err, s1)))"

text \<open>\<open>isRetryableError\<close> is the stub of the source.\<close>

definition isRetryableError :: "err \<Rightarrow> bool" where
  "isRetryableError e = False"

text \<open>The decimal text \<open>%d\<close> prints.\<close>

fun digits :: "nat \<Rightarrow> string" where
  "digits n = (if n < 10 then [''0123456789'' ! n]
               else digits (n div 10) @ [''0123456789'' ! (n mod 10)])"

definition itoa :: "int \<Rightarrow> string" where
  "itoa i = (if i < 0 then ''-'' @ digits (nat (- i)) else digits (nat i))"

text \<open>
  \<open>fmt.Errorf("command failed after %d retries: %w", maxRetries, err)\<close>.  With a nil
  \<open>err\<close> the verb \<open>%w\<close> has no error to wrap: the text ends in \<open>%!w(<nil>)\<close> and the error
  returned wraps nothing.
\<close>

definition retries_exhausted :: "int \<Rightarrow> err option \<Rightarrow> err" where
  "retries_exhausted maxRetries err =
     (let msg = ''command failed after '' @ itoa maxRetries @ '' retries: ''
      in case err of
           Some e \<Rightarrow> Wrapf msg e
         | None \<Rightarrow> Errorf (msg @ ''%!w(<nil>)''))"

text \<open>
  The loop of \<open>RetryInterceptor.Execute\<close>, from \<open>attempt\<close> on; \<open>err\<close> is the error of the
  last call (nil before the first).  The sleep between attempts changes no state.
\<close>

function retry_loop ::
  "int \<Rightarrow> int \<Rightarrow> err option \<Rightarrow> ('c, 'e, 'v, 's) next_Execute \<Rightarrow> ('c, 'e, 'v, 's) next_Execute" where
  "retry_loop attempt maxRetries err next ctx command s =
     (if attempt \<le> maxRetries then
        (let s1 = (if attempt > 0 then printf s (Retrying attempt maxRetries) else s);
             (out, s2) = next ctx command s1
         in case out of
              Panic p \<Rightarrow> (Panic p, s2)
            | Return result err1 \<Rightarrow>
                (case err1 of
                   None \<Rightarrow> (Return result None, s2)
                 | Some e \<Rightarrow>
                     if \<not> isRetryableError e
                     then (Return None (Some (retries_exhausted maxRetries err1)), s2)
                     else retry_loop (attempt + 1) maxRetries err1 next ctx command s2))
      else (Return None (Some (retries_exhausted maxRetries err)), s))"
  by pat_completeness auto
termination
  by (relation "measure (\<lambda>(attempt, maxRetries, err, next, ctx, command, s). nat (maxRetries + 1 - attempt))") auto

definition RetryInterceptor_Execute ::
  "int \<Rightarrow> ('c, 'e, 'v, 's) next_Execute \<Rightarrow> ('c, 'e, 'v, 's) next_Execute" where
  "RetryInterceptor_Execute maxRetries next ctx command s0 =
     retry_loop 0 maxRetries None next ctx command (enter s0 Retry)"

text \<open>
  Dynamic dispatch on the interceptor, and the chain: \<open>chain_Execute is\<close> is \<open>Execute\<close> of
  the first interceptor of \<open>is\<close>, whose \<open>next\<close> is the rest of the list (nil at its end).
\<close>

fun interceptor_Execute ::
  "('c, 'e, 'v, 's) interceptor \<Rightarrow> ('c, 'e, 'v, 's) next_Execute \<Rightarrow> ('c, 'e, 'v, 's) next_Execute" where
  "interceptor_Execute LoggingInterceptor next = LoggingInterceptor_Execute next"
| "interceptor_Execute (RetryInterceptor maxRetries) next = RetryInterceptor_Execute maxRetries next"
| "interceptor_Execute (CustomInterceptor f) next = f next"
| "interceptor_Execute TransactionInterceptor next = TransactionInterceptor_Execute next"
| "interceptor_Execute (ContextInterceptor engine) next = ContextInterceptor_Execute engine next"
| "interceptor_Execute CommandInvoker next = CommandInvoker_Execute next"

primrec chain_Execute :: "('c, 'e, 'v, 's) interceptor list \<Rightarrow> ('c, 'e, 'v, 's) next_Execute" where
  "chain_Execute [] = nil_next"
| "chain_Execute (i # rest) = interceptor_Execute i (chain_Execute rest)"

text \<open>
  \<open>NewCommandExecutor\<close> (internal/engine).  The loop sets \<open>interceptors[i].next\<close> to
  \<open>interceptors[i+1]\<close>, so the chain that starts at \<open>interceptors[0]\<close> is the list
  itself, and \<open>first\<close> is kept as that list.  \<open>Inl\<close> is a panic with its message.
\<close>

record ('c, 'e, 'v, 's) CommandExecutor =
  first :: "('c, 'e, 'v, 's) interceptor list"

definition at_least_one_interceptor :: string where
  "at_least_one_interceptor = ''at least one interceptor is required''"

definition NewCommandExecutor ::
  "('c, 'e, 'v, 's) interceptor list \<Rightarrow> string + ('c, 'e, 'v, 's) CommandExecutor" where
  "NewCommandExecutor interceptors =
     (if length interceptors = 0 then Inl at_least_one_interceptor
      else Inr \<lparr>first = interceptors\<rparr>)"

text \<open>
  \<open>NewCommandExecutor\<close> of engine/command\_executor.go, the one package task imports: as
  above, with the last interceptor kept as well.
\<close>

record ('c, 'e, 'v, 's) CommandExecutorImpl =
  impl_first :: "('c, 'e, 'v, 's) interceptor list"
  impl_last :: "('c, 'e, 'v, 's) interceptor list"

definition engine_NewCommandExecutor ::
  "('c, 'e, 'v, 's) interceptor list \<Rightarrow> string + ('c, 'e, 'v, 's) CommandExecutorImpl" where
  "engine_NewCommandExecutor interceptors =
     (if length interceptors = 0 then Inl at_least_one_interceptor
      else Inr \<lparr>impl_first = interceptors,
                impl_last = drop (length interceptors - 1) interceptors\<rparr>)"

text \<open>\<open>CommandExecutor.Execute\<close>; a nil command is \<open>None\<close>.\<close>

definition command_nil :: err where
  "command_nil = Errorf ''command cannot be nil''"

definition CommandExecutor_Execute ::
  "('c, 'e, 'v, 's) CommandExecutor \<Rightarrow> ('c, 'e, 'v) ctx \<Rightarrow> ('c, 'e, 'v, 's) command option
     \<Rightarrow> 's exec_state \<Rightarrow> 'v outcome \<times> 's exec_state" where
  "CommandExecutor_Execute e ctx command s =
     (case command of
        None \<Rightarrow> (Return None (Some command_nil), s)
      | Some c \<Rightarrow> chain_Execute (first e) ctx c s)"

text \<open>The builder and its defaults.\<close>

record ('c, 'e, 'v, 's) CommandExecutorBuilder =
  engine :: 'e
  interceptors :: "('c, 'e, 'v, 's) interceptor list"
  enableLogging :: bool
  enableTransaction :: bool
  enableRetry :: bool
  retryAttempts :: int

definition NewCommandExecutorBuilder :: "'e \<Rightarrow> ('c, 'e, 'v, 's) CommandExecutorBuilder" where
  "NewCommandExecutorBuilder e =
     \<lparr>engine = e, interceptors = [], enableLogging = True, enableTransaction = True,
      enableRetry = False, retryAttempts = 3\<rparr>"

definition WithLogging ::
  "('c, 'e, 'v, 's) CommandExecutorBuilder \<Rightarrow> bool \<Rightarrow> ('c, 'e, 'v, 's) CommandExecutorBuilder" where
  "WithLogging b enabled = b\<lparr>enableLogging := enabled\<rparr>"

definition WithTransaction ::
  "('c, 'e, 'v, 's) CommandExecutorBuilder \<Rightarrow> bool \<Rightarrow> ('c, 'e, 'v, 's) CommandExecutorBuilder" where
  "WithTransaction b enabled = b\<lparr>enableTransaction := enabled\<rparr>"

definition WithRetry ::
  "('c, 'e, 'v, 's) CommandExecutorBuilder \<Rightarrow> bool \<Rightarrow> int \<Rightarrow> ('c, 'e, 'v, 's) CommandExecutorBuilder" where
  "WithRetry b enabled attempts = b\<lparr>enableRetry := enabled, retryAttempts := attempts\<rparr>"

definition AddInterceptor ::
  "('c, 'e, 'v, 's) CommandExecutorBuilder \<Rightarrow> ('c, 'e, 'v, 's) interceptor
     \<Rightarrow> ('c, 'e, 'v, 's) CommandExecutorBuilder" where
  "AddInterceptor b i = b\<lparr>interceptors := interceptors b @ [i]\<rparr>"

definition Build ::
  "('c, 'e, 'v, 's) CommandExecutorBuilder \<Rightarrow> string + ('c, 'e, 'v, 's) CommandExecutor" where
  "Build b =
     (let is0 = [];
          is1 = (if enableLogging b then is0 @ [LoggingInterceptor] else is0);
          is2 = (if enableRetry b then is1 @ [RetryInterceptor (retryAttempts b)] else is1);
          is3 = is2 @ interceptors b;
          is4 = (if enableTransaction b then is3 @ [TransactionInterceptor] else is3);
          is5 = is4 @ [ContextInterceptor (engine b)];
          is6 = is5 @ [CommandInvoker]
      in NewCommandExecutor is6)"

text \<open>
  \<open>NewEngine\<close> builds its executor with \<open>WithLogging(true).WithTransaction(true)\<close>.
\<close>

definition engine_executor :: "'e \<Rightarrow> string + ('c, 'e, 'v, 's) CommandExecutor" where
  "engine_executor e = Build (WithTransaction (WithLogging (NewCommandExecutorBuilder e) True) True)"

section \<open>The task commands (packages engine, task and commands)\<close>

text \<open>
  \<open>CommandExecutorImpl.Execute\<close> of engine/command\_executor.go: as
  \<open>CommandExecutor.Execute\<close>, on the executor type the task service holds.
\<close>

definition CommandExecutorImpl_Execute ::
  "('c, 'e, 'v, 's) CommandExecutorImpl \<Rightarrow> ('c, 'e, 'v) ctx \<Rightarrow> ('c, 'e, 'v, 's) command option
     \<Rightarrow> 's exec_state \<Rightarrow> 'v outcome \<times> 's exec_state" where
  "CommandExecutorImpl_Execute e ctx command s =
     (case command of
        None \<Rightarrow> (Return None (Some command_nil), s)
      | Some c \<Rightarrow> chain_Execute (impl_first e) ctx c s)"

text \<open>
  What the commands of the engine return behind \<open>interface{}\<close>: a task, a process
  instance, or something else.
\<close>

datatype 'a go_value = TaskValue Task | ProcessInstanceValue ProcessInstance | OtherValue 'a

text \<open>
  \<open>StartProcessInstanceCommand.Execute\<close>.  It fetches the runtime and the repository
  service from the engine of the CommandContext and then branches on the two identifier
  fields of the command.  The branch for a non-empty \<open>ProcessDefinitionID\<close> and the branch
  for a non-empty \<open>ProcessDefinitionKey\<close> each look the definition up in the repository
  service, refuse a suspended one and start the instance through the runtime service, which
  draws a UUID and reads the clock; with what follows them in the function they are the
  parameters \<open>byID\<close> and \<open>byKey\<close>.  The last branch, taken when both fields are empty,
  returns its error at once.
\<close>

record StartProcessInstanceCommand =
  spc_ProcessDefinitionID :: string
  spc_ProcessDefinitionKey :: string
  spc_BusinessKey :: string
  spc_Variables :: "ref option"

type_synonym ('c, 'e, 'v, 's) start_branch =
  "StartProcessInstanceCommand \<Rightarrow> ('c, 'e, 'v) ctx \<Rightarrow> ('c, 'e, 'v) CommandContext \<Rightarrow> 's
     \<Rightarrow> ('v option \<times> err option) \<times> 's"

definition id_or_key_required :: err where
  "id_or_key_required = Errorf ''either process definition ID or key must be provided''"

definition StartProcessInstanceCommand_Execute ::
  "('c, 'e, 'v, 's) start_branch \<Rightarrow> ('c, 'e, 'v, 's) start_branch
   \<Rightarrow> StartProcessInstanceCommand \<Rightarrow> ('c, 'e, 'v) ctx \<Rightarrow> ('c, 'e, 'v) CommandContext \<Rightarrow> 's
   \<Rightarrow> ('v option \<times> err option) \<times> 's" where
  "StartProcessInstanceCommand_Execute byID byKey c ctx commandContext w =
     (if spc_ProcessDefinitionID c \<noteq> '''' then byID c ctx commandContext w
      else if spc_ProcessDefinitionKey c \<noteq> '''' then byKey c ctx commandContext w
      else ((None, Some id_or_key_required), w))"

definition StartProcessInstanceCommand_command ::
  "('c, 'e, 'v, 's) start_branch \<Rightarrow> ('c, 'e, 'v, 's) start_branch
   \<Rightarrow> StartProcessInstanceCommand \<Rightarrow> ('c, 'e, 'v, 's) command" where
  "StartProcessInstanceCommand_command byID byKey c =
     \<lparr>type_name = ''*commands.StartProcessInstanceCommand'',
      Execute = StartProcessInstanceCommand_Execute byID byKey c\<rparr>"

text \<open>\<open>&commands.StartProcessInstanceCommand{}\<close>: every field has its zero value.\<close>

definition zero_StartProcessInstanceCommand :: StartProcessInstanceCommand where
  "zero_StartProcessInstanceCommand =
     \<lparr>spc_ProcessDefinitionID = '''', spc_ProcessDefinitionKey = '''', spc_BusinessKey = '''',
      spc_Variables = None\<rparr>"

text \<open>
  \<open>taskServiceImpl.GetTask\<close>.  It submits a zero-valued StartProcessInstanceCommand to the
  executor of the task service and returns what the executor returns.  Neither \<open>taskID\<close>
  nor \<open>s.tasks\<close> is read.  The source hands the executor's \<open>interface{}\<close> value back as the
  \<open>*Task\<close>: a value that is a task is read as that task, any other as nil.
\<close>

fun as_Task :: "'a go_value option \<Rightarrow> Task option" where
  "as_Task (Some (TaskValue task)) = Some task"
| "as_Task _ = None"

definition GetTask ::
  "('c, 'e, 'a go_value, 's) start_branch \<Rightarrow> ('c, 'e, 'a go_value, 's) start_branch
   \<Rightarrow> ('c, 'e, 'a go_value, 's) CommandExecutorImpl \<Rightarrow> ('c, 'e, 'a go_value) ctx \<Rightarrow> string
   \<Rightarrow> 's exec_state \<Rightarrow> Task outcome \<times> 's exec_state" where
  "GetTask byID byKey taskExecutor ctx taskID s =
     (case CommandExecutorImpl_Execute taskExecutor ctx
             (Some (StartProcessInstanceCommand_command byID byKey
                      zero_StartProcessInstanceCommand)) s of
        (Panic p, s1) \<Rightarrow> (Panic p, s1)
      | (Return task err, s1) \<Rightarrow> (Return (as_Task task) err, s1))"

text \<open>
  The world of the task commands: the heap of maps, the runtime store and the task store
  behind the services the engine returns.
\<close>

record 'a stores =
  st_heap :: "'a heap"
  st_runtime :: runtime_store
  st_tasks :: "'a task_store"

text \<open>
  \<open>CompleteTaskCommand.Execute\<close>.  \<open>taskExecutor\<close> is the executor of the task service the
  engine returns; \<open>byID\<close> and \<open>byKey\<close> are handed on to \<open>GetTask\<close>.  Reading
  \<open>task.Suspended\<close> through a nil task panics.  The block under \<open>EnableHistory\<close> is empty
  in the source.
\<close>

record CompleteTaskCommand =
  ctc_TaskID :: string
  ctc_Variables :: "ref option"

definition task_id_empty :: err where
  "task_id_empty = Errorf ''task ID cannot be empty''"

definition task_suspended :: "string \<Rightarrow> err" where
  "task_suspended taskID = Errorf (''cannot complete suspended task '' @ quoted taskID)"

definition CompleteTaskCommand_Execute ::
  "('c, 'e, 'b go_value, 'a stores) start_branch \<Rightarrow> ('c, 'e, 'b go_value, 'a stores) start_branch
   \<Rightarrow> ('c, 'e, 'b go_value, 'a stores) CommandExecutorImpl
   \<Rightarrow> CompleteTaskCommand \<Rightarrow> ('c, 'e, 'b go_value) ctx \<Rightarrow> ('c, 'e, 'b go_value) CommandContext
   \<Rightarrow> 'a stores exec_state \<Rightarrow> 'b go_value outcome \<times> 'a stores exec_state" where
  "CompleteTaskCommand_Execute byID byKey taskExecutor c ctx commandContext s =
     (if ctc_TaskID c = '''' then (Return None (Some task_id_empty), s)
      else
        (case GetTask byID byKey taskExecutor ctx (ctc_TaskID c) s of
           (Panic p, s1) \<Rightarrow> (Panic p, s1)
         | (Return task err, s1) \<Rightarrow>
             (case err of
                Some e \<Rightarrow> (Return None (Some (Wrapf ''task not found: '' e)), s1)
              | None \<Rightarrow>
                  (case task of
                     None \<Rightarrow> (Panic nil_dereference, s1)
                   | Some t \<Rightarrow>
                       if Suspended t
                       then (Return None (Some (task_suspended (ctc_TaskID c))), s1)
                       else
                         (let w = world s1;
                              (err1, h1, rs1) =
                                (if ctc_Variables c \<noteq> None
                                    \<and> entries (st_heap w) (ctc_Variables c) \<noteq> Map.empty
                                    \<and> ExecutionID t \<noteq> ''''
                                 then SetVariables (st_heap w) (st_runtime w) (ExecutionID t)
                                        (ctc_Variables c)
                                 else (None, st_heap w, st_runtime w))
                          in (case err1 of
                                Some e \<Rightarrow>
                                  (Return None (Some (Wrapf ''failed to set variables: '' e)),
                                   s1\<lparr>world := w\<lparr>st_heap := h1, st_runtime := rs1\<rparr>\<rparr>)
                              | None \<Rightarrow>
                                  (let (err2, h2, rs2, ts2) =
                                         Complete h1 rs1 (st_tasks w) (ctc_TaskID c);
                                       s2 = s1\<lparr>world := \<lparr>st_heap = h2, st_runtime = rs2,
                                                          st_tasks = ts2\<rparr>\<rparr>
                                   in (case err2 of
                                         Some e \<Rightarrow>
                                           (Return None
                                              (Some (Wrapf ''failed to complete task: '' e)),
                                            s2)
                                       | None \<Rightarrow> (Return None None, s2)))))))))"

section \<open>Constructing the task service (packages engine and task)\<close>

text \<open>
  \<open>NewTaskService\<close>: the executor is made first, with no interceptor, and the service
  value is built only if that call returns.
\<close>

record ('r, 'x, 'w) taskServiceImpl =
  runtimeService :: 'r
  executor :: 'x
  store :: "'w task_store"

definition NewTaskService ::
  "'r \<Rightarrow> string + ('r, ('c, 'e, 'v, 's) CommandExecutorImpl, 'w) taskServiceImpl" where
  "NewTaskService rtService =
     (case engine_NewCommandExecutor [] of
        Inl p \<Rightarrow> Inl p
      | Inr cmdExec \<Rightarrow>
          Inr \<lparr>runtimeService = rtService, executor = cmdExec, store = NewTaskStore\<rparr>)"

section \<open>A command for the examples\<close>

text \<open>
  A command over a world that counts how often \<open>Execute\<close> has run; it always fails with
  the same error.
\<close>

definition boom :: err where
  "boom = Errorf ''boom''"

definition failing_command :: "(unit, unit, nat, nat) command" where
  "failing_command =
     \<lparr>type_name = ''*commands.FailingCommand'',
      Execute = (\<lambda>ctx commandContext n. ((None, Some boom), Suc n))\<rparr>"

definition succeeding_command :: "(unit, unit, nat, nat) command" where
  "succeeding_command =
     \<lparr>type_name = ''*commands.CountCommand'',
      Execute = (\<lambda>ctx commandContext n. ((Some n, None), Suc n))\<rparr>"

definition initial_state :: "nat exec_state" where
  "initial_state = \<lparr>log_lines = [], trace = [], world = 0\<rparr>"

definition background :: "(unit, unit, nat) ctx" where
  "background = Ctx () None"


text \<open>A command that hands back a result together with its error.\<close>

definition partial_command :: "(unit, unit, nat, nat) command" where
  "partial_command =
     \<lparr>type_name = ''*commands.PartialCommand'',
      Execute = (\<lambda>ctx commandContext n. ((Some 7, Some boom), Suc n))\<rparr>"

text \<open>The store with one commented task, after alice has claimed the task.\<close>

definition claimed_store :: "int task_store" where
  "claimed_store = snd (Claim commented_store ''t1'' ''alice'' 20)"

section \<open>A running process for the examples\<close>

text \<open>
  A definition that is not suspended, the caller's variable map \<open>{"amount": 7}\<close> at
  reference 0, and the runtime store after \<open>startProcessInstance\<close> with that map.
\<close>

definition order_definition :: ProcessDefinition where
  "order_definition =
     \<lparr>pd_ID = ''order:1:d1'', pd_Key = ''order'', pd_Name = ''Order'', pd_Description = '''',
      pd_Version = 1, pd_Category = '''', pd_DeploymentID = ''dep-1'',
      pd_ResourceName = ''order.json'', pd_TenantID = '''', pd_Suspended = False,
      pd_StartFormKey = '''', pd_HasStartFormKey = False, pd_HasGraphicalNotation = True\<rparr>"

definition caller_heap :: "int heap" where
  "caller_heap = \<lparr>cells = (\<lambda>_. Map.empty)(0 := [''amount'' \<mapsto> 7]), next_ref = 1\<rparr>"

definition started_heap :: "int heap" where
  "started_heap =
     fst (snd (startProcessInstance caller_heap NewRuntimeStore order_definition ''bk-1''
                 (Some 0) ''pi-1'' 100))"

definition started_store :: runtime_store where
  "started_store =
     snd (snd (startProcessInstance caller_heap NewRuntimeStore order_definition ''bk-1''
                 (Some 0) ''pi-1'' 100))"

text \<open>
  A task of that process instance, waiting on its root execution, and the caller's map
  \<open>{"approved": 1}\<close> made at the next free reference.
\<close>

definition review_task :: Task where
  "review_task =
     (NewTask ''t2'' ''uuid-0'' 101)\<lparr>ProcessInstanceID := ''pi-1'', ExecutionID := ''pi-1''\<rparr>"

definition review_store :: "int task_store" where
  "review_store = snd (SaveTask NewTaskStore review_task ''uuid-1'')"

definition review_heap :: "int heap" where
  "review_heap =
     started_heap\<lparr>cells := (cells started_heap)(next_ref started_heap := [''approved'' \<mapsto> 1]),
                  next_ref := Suc (next_ref started_heap)\<rparr>"

text \<open>A second instance of the same definition, started from the same caller's map.\<close>

definition two_instances_heap :: "int heap" where
  "two_instances_heap =
     fst (snd (startProcessInstance started_heap started_store order_definition ''bk-2''
                 (Some 0) ''pi-2'' 110))"

definition two_instances_store :: runtime_store where
  "two_instances_store =
     snd (snd (startProcessInstance started_heap started_store order_definition ''bk-2''
                 (Some 0) ''pi-2'' 110))"

section \<open>A task service for the examples\<close>

text \<open>
  The stores with the review task waiting on its execution, and the executor a task
  service gets when it is given the chain of the engine's builder.
\<close>

definition review_world :: "int stores" where
  "review_world = \<lparr>st_heap = review_heap, st_runtime = started_store, st_tasks = review_store\<rparr>"

definition review_state :: "int stores exec_state" where
  "review_state = \<lparr>log_lines = [], trace = [], world = review_world\<rparr>"

definition task_executor :: "(unit, unit, int go_value, int stores) CommandExecutorImpl" where
  "task_executor =
     \<lparr>impl_first = [LoggingInterceptor, TransactionInterceptor, ContextInterceptor (),
                    CommandInvoker],
      impl_last = [CommandInvoker]\<rparr>"

text \<open>The same stores after the service method has completed the task.\<close>

definition completed_world :: "int stores" where
  "completed_world =
     (case CompleteWithVariables review_heap started_store review_store ''t2'' (Some 2) of
        (e, h, rs, s) \<Rightarrow> \<lparr>st_heap = h, st_runtime = rs, st_tasks = s\<rparr>)"

definition completed_state :: "int stores exec_state" where
  "completed_state = \<lparr>log_lines = [], trace = [], world = completed_world\<rparr>"

section \<open>Properties of the task store\<close>

lemmas example_store_defs =
  commented_store_def SaveTask_def NewTask_def AddComment_def CreateAttachment_def
  SetTaskVariable_def NewTaskStore_def Let_def

lemma claimed_store_t1:
  "tasks claimed_store ''t1'' =
     Some ((NewTask ''t1'' ''uuid-0'' 10)\<lparr>Assignee := ''alice'', ClaimTime := Some 20\<rparr>)"
  by (simp add: claimed_store_def Claim_def example_store_defs)

text \<open>
  C5.  When a task is held by a user \<open>u1\<close>, \<open>Claim\<close> by any other user \<open>u2\<close> returns the
  "already claimed" error naming \<open>u1\<close>, and the store it leaves is the store it was given:
  the assignee is still \<open>u1\<close> and the claim time is untouched.
\<close>

theorem Claim_by_other_user_rejected:
  assumes "tasks s taskID = Some task"
    and "Assignee task = u1" and "u1 \<noteq> ''''" and "u2 \<noteq> u1"
  shows "Claim s taskID u2 now = (Some (already_claimed u1), s)"
  using assms by (simp add: Claim_def)

theorem Claim_by_other_user_rejected_witness:
  "tasks claimed_store ''t1'' =
     Some ((NewTask ''t1'' ''uuid-0'' 10)\<lparr>Assignee := ''alice'', ClaimTime := Some 20\<rparr>)
   \<and> Claim claimed_store ''t1'' ''bob'' 30 = (Some (already_claimed ''alice''), claimed_store)"
  using Claim_by_other_user_rejected
          [of claimed_store "''t1''"
              "(NewTask ''t1'' ''uuid-0'' 10)\<lparr>Assignee := ''alice'', ClaimTime := Some 20\<rparr>"
              "''alice''" "''bob''" 30]
        claimed_store_t1
  by simp

text \<open>
  What completion deletes.  \<open>DeleteTask\<close> removes the task and the three entries keyed by
  it; \<open>CompleteWithVariables\<close> on a task without an execution removes the task alone, and
  a second completion of the same ID reports that the task is not found.
\<close>

lemma DeleteTask_cascades:
  assumes "tasks s taskID = Some task"
  shows "DeleteTask s taskID =
           (None, s\<lparr>tasks := (tasks s)(taskID := None), comments := (comments s)(taskID := None),
                     attachments := (attachments s)(taskID := None),
                     variables := (variables s)(taskID := None)\<rparr>)"
  using assms by (simp add: DeleteTask_def)

lemma Complete_removes_task_only:
  assumes "tasks s taskID = Some task" and "ExecutionID task = ''''"
  shows "CompleteWithVariables h rs s taskID vars =
           (None, h, rs, s\<lparr>tasks := (tasks s)(taskID := None)\<rparr>)"
  using assms by (simp add: CompleteWithVariables_def)

lemma Complete_twice_not_found:
  assumes "CompleteWithVariables h rs s taskID vars = (None, h1, rs1, s1)"
  shows "CompleteWithVariables h1 rs1 s1 taskID vars' =
           (Some (task_not_found taskID), h1, rs1, s1)"
  using assms
  by (auto simp: CompleteWithVariables_def Let_def split: option.splits prod.splits if_splits)

text \<open>
  C1.  The claim says that completing a task removes its comments, attachments and
  variables with it.  On the store with one commented task, \<open>Complete\<close> returns no error
  and removes the task, and the comments, the attachments and the variables keyed by the
  task are still in the store, unchanged.
\<close>

theorem Complete_keeps_comments_attachments_variables:
  "case Complete (empty_heap :: int heap) NewRuntimeStore commented_store ''t1'' of
     (e, h, rs, s) \<Rightarrow>
       e = None \<and> tasks s ''t1'' = None
       \<and> comments s ''t1'' = comments commented_store ''t1'' \<and> comments s ''t1'' \<noteq> None
       \<and> attachments s ''t1'' = attachments commented_store ''t1'' \<and> attachments s ''t1'' \<noteq> None
       \<and> variables s ''t1'' = variables commented_store ''t1'' \<and> variables s ''t1'' \<noteq> None"
  by (simp add: Complete_def CompleteWithVariables_def example_store_defs)

section \<open>The service method hands the variables to the execution\<close>

lemmas runtime_example_defs =
  started_heap_def started_store_def startProcessInstance_def order_definition_def
  caller_heap_def NewRuntimeStore_def make_map_def copy_entries_def entries_def Let_def

lemma started_store_execution:
  "executions started_store ''pi-1'' =
     Some \<lparr>ex_ID = ''pi-1'', ex_ProcessInstanceID = ''pi-1'', ex_ParentID = '''',
           ex_ActivityID = '''', ex_IsActive = True, ex_IsConcurrent = False, ex_IsScope = True,
           ex_IsEventScope = False, ex_Suspended = False, ex_TenantID = ''''\<rparr>"
  by (simp add: runtime_example_defs)

lemma started_heap_next: "next_ref started_heap = 2"
  by (simp add: runtime_example_defs)

lemma started_store_scopes: "scopes started_store = [''pi-1'' \<mapsto> 1]"
  by (simp add: runtime_example_defs)

lemma review_store_task: "tasks review_store ''t2'' = Some review_task"
  by (simp add: review_store_def SaveTask_def review_task_def NewTask_def NewTaskStore_def)

lemma review_heap_facts:
  "allocated review_heap 2" "scopes_allocated review_heap started_store"
  "cells review_heap 2 = [''approved'' \<mapsto> 1]"
  by (simp_all add: review_heap_def allocated_def scopes_allocated_def started_heap_next
      started_store_scopes)

text \<open>
  The service method on its own.  Let a task of the store name, in its \<open>ExecutionID\<close>, an
  execution of the runtime store, and let \<open>vars\<close> be a non-empty map (an allocated object
  \<open>src\<close> of a heap in which every stored scope is allocated too).  Then
  \<open>CompleteWithVariables\<close> returns no error; \<open>GetVariables\<close> on the execution afterwards
  succeeds and the map it returns contains every entry of \<open>vars\<close>; the task is gone from
  \<open>s.tasks\<close>, and the methods that read \<open>s.tasks\<close> report that the task is not found.  An
  empty \<open>ExecutionID\<close> names no execution: the code skips the runtime service for it.
\<close>

theorem Complete_propagates_variables:
  assumes "tasks s taskID = Some task"
    and "ExecutionID task \<noteq> ''''"
    and "executions rs (ExecutionID task) = Some execution"
    and "allocated h src" and "scopes_allocated h rs"
    and "cells h src \<noteq> Map.empty"
  shows "\<exists>h1 rs1 s1 result h2.
           CompleteWithVariables h rs s taskID (Some src) = (None, h1, rs1, s1)
         \<and> GetVariables h1 rs1 (ExecutionID task) = (Inr result, h2)
         \<and> cells h src \<subseteq>\<^sub>m cells h2 result
         \<and> tasks s1 taskID = None
         \<and> GetTaskVariables s1 taskID = Inl (task_not_found taskID)"
  using assms
  by (auto simp: CompleteWithVariables_def SetVariables_def Signal_def SignalWithVariables_def
      ensure_scope_def copy_entries_def entries_def make_map_def GetVariables_def
      GetTaskVariables_def map_le_def map_add_def allocated_def scopes_allocated_def
      split: option.splits)

theorem Complete_propagates_variables_witness:
  "\<exists>h1 rs1 s1 result h2.
     CompleteWithVariables review_heap started_store review_store ''t2'' (Some 2)
       = (None, h1, rs1, s1)
   \<and> GetVariables h1 rs1 ''pi-1'' = (Inr result, h2)
   \<and> [''approved'' \<mapsto> 1] \<subseteq>\<^sub>m cells h2 result
   \<and> tasks s1 ''t2'' = None
   \<and> GetTaskVariables s1 ''t2'' = Inl (task_not_found ''t2'')"
proof -
  have ex: "ExecutionID review_task = ''pi-1''"
    by (simp add: review_task_def)
  have "ExecutionID review_task \<noteq> ''''"
    by (simp add: review_task_def)
  moreover have "executions started_store (ExecutionID review_task) \<noteq> None"
    by (simp add: ex started_store_execution)
  moreover have "cells review_heap 2 \<noteq> Map.empty"
    by (simp add: review_heap_facts)
  ultimately show ?thesis
    using Complete_propagates_variables [OF review_store_task, of started_store _ review_heap 2]
      review_heap_facts ex
    by auto
qed

section \<open>Claim time and assignee\<close>

lemma claim_invariant_NewTask: "claim_invariant (NewTask taskID uuid now)"
  by (simp add: claim_invariant_def NewTask_def)

lemma tasks_invariant_NewTaskStore: "tasks_invariant NewTaskStore"
  by (simp add: tasks_invariant_def NewTaskStore_def)

lemma CompleteWithVariables_tasks:
  "tasks (snd (snd (snd (CompleteWithVariables h rs s taskID vars)))) = tasks s
   \<or> tasks (snd (snd (snd (CompleteWithVariables h rs s taskID vars)))) = (tasks s)(taskID := None)"
  by (auto simp: CompleteWithVariables_def Let_def split: option.splits prod.splits)

lemma DeleteAttachment_tasks: "tasks (snd (DeleteAttachment s attachmentID order)) = tasks s"
  by (induction order) (auto split: option.splits)

text \<open>\<open>SetAssignee\<close> on a task of the store writes the assignee and nothing else.\<close>

lemma SetAssignee_writes_assignee_only:
  assumes "tasks s taskID = Some task"
  shows "SetAssignee s taskID userID
           = (None, s\<lparr>tasks := (tasks s)(taskID \<mapsto> task\<lparr>Assignee := userID\<rparr>)\<rparr>)"
  using assms by (simp add: SetAssignee_def)

text \<open>
  One step from a store that satisfies the invariant: the store reached satisfies it
  exactly when the condition holds.  By cases on the operation.
\<close>

lemma task_step_invariant_iff:
  assumes "tasks_invariant s"
  shows "tasks_invariant (snd (snd (task_step op (h, rs, s)))) = keeps_claim_invariant s op"
proof (cases op)
  case (OpCompleteWithVariables taskID vars)
  then show ?thesis
    using CompleteWithVariables_tasks [of h rs s taskID vars] assms
    by (auto simp: tasks_invariant_def split: if_splits)
next
  case (OpDeleteAttachment attachmentID order)
  then show ?thesis
    using DeleteAttachment_tasks [of s attachmentID order] assms
    by (simp add: tasks_invariant_def)
next
  case (OpSaveTask task uuid)
  then show ?thesis
    using assms
    by (auto simp: SaveTask_def Let_def claim_invariant_def tasks_invariant_def
        split: if_splits)
next
  case (OpSetAssignee taskID userID)
  then show ?thesis
    using assms
    by (auto simp: SetAssignee_def claim_invariant_def tasks_invariant_def
        split: option.splits if_splits)
next
  case (OpClaim taskID userID now)
  then show ?thesis
    using assms
    by (auto simp: Claim_def claim_invariant_def tasks_invariant_def
        split: option.splits if_splits)
qed (use assms in \<open>auto simp: DeleteTask_def Unclaim_def SetOwner_def AddCandidateUser_def
      AddCandidateGroup_def DeleteCandidateUser_def DeleteCandidateGroup_def SetPriority_def
      SetDueDate_def SetTaskVariable_def SetTaskVariables_def RemoveTaskVariable_def
      AddComment_def CreateAttachment_def Let_def claim_invariant_def tasks_invariant_def
      split: option.splits if_splits\<close>)

lemma run_ops_keeps_invariant:
  assumes "tasks_invariant s" and "keeps_claim_invariant_along ops (h, rs, s)"
  shows "tasks_invariant (snd (snd (run_ops ops (h, rs, s))))"
  using assms
proof (induction ops arbitrary: h rs s)
  case Nil
  then show ?case by simp
next
  case (Cons op ops)
  obtain h1 rs1 s1 where st: "task_step op (h, rs, s) = (h1, rs1, s1)"
    by (cases "task_step op (h, rs, s)") auto
  have "tasks_invariant s1"
    using task_step_invariant_iff [OF Cons.prems(1), of op h rs] Cons.prems(2) st by simp
  then show ?case
    using Cons.IH [of s1 h1 rs1] Cons.prems(2) st by simp
qed

text \<open>
  C3, as the code has it.  Take a store in which every task has a claim time exactly when
  it has an assignee.  A sequence of task operations leads to such a store again when
  every \<open>SaveTask\<close> in it is given a task that satisfies the invariant, every \<open>SetAssignee\<close>
  finds its task absent or is given a non-empty user exactly when the task has a claim
  time, and every \<open>Claim\<close> with the empty user finds its task absent or already assigned.
  For a single operation this condition is exact: the store reached satisfies the
  invariant if and only if the condition holds.  \<open>SetAssignee\<close> on a task of the store
  writes the assignee only and leaves the claim time as it was.
\<close>

theorem claim_invariant_preserved:
  "(tasks_invariant s \<and> keeps_claim_invariant_along ops (h, rs, s)
      \<longrightarrow> tasks_invariant (snd (snd (run_ops ops (h, rs, s)))))
   \<and> (tasks_invariant s
      \<longrightarrow> tasks_invariant (snd (snd (task_step op (h, rs, s)))) = keeps_claim_invariant s op)
   \<and> (tasks s' taskID = Some task
      \<longrightarrow> SetAssignee s' taskID userID
            = (None, s'\<lparr>tasks := (tasks s')(taskID \<mapsto> task\<lparr>Assignee := userID\<rparr>)\<rparr>)
          \<and> ClaimTime (task\<lparr>Assignee := userID\<rparr>) = ClaimTime task)"
  using run_ops_keeps_invariant [of s ops h rs] task_step_invariant_iff [of s op h rs]
    SetAssignee_writes_assignee_only [of s' taskID task userID]
  by simp

theorem claim_invariant_preserved_witness:
  "tasks_invariant (NewTaskStore :: int task_store)
   \<and> keeps_claim_invariant_along
         [OpSaveTask (NewTask ''t1'' ''uuid-0'' 10) ''uuid-1'',
          OpClaim ''t1'' ''alice'' 20, OpSetAssignee ''t1'' ''carol'', OpUnclaim ''t1'',
          OpSetAssignee ''t1'' '''', OpDeleteAttachment ''a1'' [''t1''],
          OpClaim ''t1'' ''bob'' 30]
         (empty_heap :: int heap, NewRuntimeStore, NewTaskStore :: int task_store)
   \<and> tasks_invariant
        (snd (snd (run_ops [OpSaveTask (NewTask ''t1'' ''uuid-0'' 10) ''uuid-1'',
                            OpClaim ''t1'' ''alice'' 20, OpSetAssignee ''t1'' ''carol'',
                            OpUnclaim ''t1'', OpSetAssignee ''t1'' '''',
                            OpDeleteAttachment ''a1'' [''t1''], OpClaim ''t1'' ''bob'' 30]
                     (empty_heap :: int heap, NewRuntimeStore, NewTaskStore :: int task_store))))
   \<and> tasks_invariant claimed_store
   \<and> keeps_claim_invariant claimed_store (OpSetAssignee ''t1'' ''carol'')
   \<and> tasks_invariant
        (snd (snd (task_step (OpSetAssignee ''t1'' ''carol'')
                     (empty_heap :: int heap, NewRuntimeStore, claimed_store))))
   \<and> SetAssignee claimed_store ''t1'' ''carol''
       = (None, claimed_store\<lparr>tasks := (tasks claimed_store)(''t1'' \<mapsto>
                  (NewTask ''t1'' ''uuid-0'' 10)
                    \<lparr>Assignee := ''alice'', ClaimTime := Some 20\<rparr>\<lparr>Assignee := ''carol''\<rparr>)\<rparr>)"
proof -
  have along: "keeps_claim_invariant_along
         [OpSaveTask (NewTask ''t1'' ''uuid-0'' 10) ''uuid-1'',
          OpClaim ''t1'' ''alice'' 20, OpSetAssignee ''t1'' ''carol'', OpUnclaim ''t1'',
          OpSetAssignee ''t1'' '''', OpDeleteAttachment ''a1'' [''t1''],
          OpClaim ''t1'' ''bob'' 30]
         (empty_heap :: int heap, NewRuntimeStore, NewTaskStore :: int task_store)"
    by (simp add: claim_invariant_def SaveTask_def Claim_def SetAssignee_def Unclaim_def
        NewTask_def NewTaskStore_def)
  have inv: "tasks_invariant claimed_store"
    by (simp add: tasks_invariant_def claim_invariant_def claimed_store_def Claim_def
        example_store_defs)
  have keeps: "keeps_claim_invariant claimed_store (OpSetAssignee ''t1'' ''carol'')"
    by (simp add: claimed_store_t1)
  have r1: "tasks_invariant
        (snd (snd (run_ops [OpSaveTask (NewTask ''t1'' ''uuid-0'' 10) ''uuid-1'',
                            OpClaim ''t1'' ''alice'' 20, OpSetAssignee ''t1'' ''carol'',
                            OpUnclaim ''t1'', OpSetAssignee ''t1'' '''',
                            OpDeleteAttachment ''a1'' [''t1''], OpClaim ''t1'' ''bob'' 30]
                     (empty_heap :: int heap, NewRuntimeStore, NewTaskStore :: int task_store))))"
    using claim_invariant_preserved
            [of "NewTaskStore :: int task_store" _ "empty_heap :: int heap" NewRuntimeStore]
          tasks_invariant_NewTaskStore along
    by blast
  have r2: "tasks_invariant
        (snd (snd (task_step (OpSetAssignee ''t1'' ''carol'')
                     (empty_heap :: int heap, NewRuntimeStore, claimed_store))))"
    using claim_invariant_preserved
            [of claimed_store _ "empty_heap :: int heap" NewRuntimeStore
                "OpSetAssignee ''t1'' ''carol''"]
          inv keeps
    by blast
  have r3: "SetAssignee claimed_store ''t1'' ''carol''
       = (None, claimed_store\<lparr>tasks := (tasks claimed_store)(''t1'' \<mapsto>
                  (NewTask ''t1'' ''uuid-0'' 10)
                    \<lparr>Assignee := ''alice'', ClaimTime := Some 20\<rparr>\<lparr>Assignee := ''carol''\<rparr>)\<rparr>)"
    using claim_invariant_preserved
            [of _ _ _ _ _ claimed_store "''t1''"
                "(NewTask ''t1'' ''uuid-0'' 10)\<lparr>Assignee := ''alice'', ClaimTime := Some 20\<rparr>"
                "''carol''"]
          claimed_store_t1
    by blast
  show ?thesis
    using tasks_invariant_NewTaskStore along r1 inv keeps r2 r3 by blast
qed

text \<open>
  C3, as the claim states it, fails at \<open>SetAssignee\<close>: on a freshly saved task it stores the
  assignee and leaves the claim time nil.
\<close>

theorem SetAssignee_breaks_claim_invariant:
  "map_option Assignee
     (tasks (snd (snd (run_ops [OpSaveTask (NewTask ''t1'' ''uuid-0'' 10) ''uuid-1'',
                                OpSetAssignee ''t1'' ''alice'']
                         (empty_heap :: int heap, NewRuntimeStore, NewTaskStore :: int task_store))))
        ''t1'') = Some ''alice''
   \<and> map_option ClaimTime
     (tasks (snd (snd (run_ops [OpSaveTask (NewTask ''t1'' ''uuid-0'' 10) ''uuid-1'',
                                OpSetAssignee ''t1'' ''alice'']
                         (empty_heap :: int heap, NewRuntimeStore, NewTaskStore :: int task_store))))
        ''t1'') = Some None
   \<and> \<not> tasks_invariant
         (snd (snd (run_ops [OpSaveTask (NewTask ''t1'' ''uuid-0'' 10) ''uuid-1'',
                             OpSetAssignee ''t1'' ''alice'']
                      (empty_heap :: int heap, NewRuntimeStore, NewTaskStore :: int task_store))))"
  by (auto simp: tasks_invariant_def claim_invariant_def SaveTask_def SetAssignee_def NewTask_def
      NewTaskStore_def)

text \<open>
  The service-level \<open>Claim\<close> does not reject the empty user (the command in front of it
  does): given one, it stamps a claim time on a task that still has no assignee.
\<close>

lemma Claim_empty_user_breaks_claim_invariant:
  "\<not> tasks_invariant
       (snd (snd (run_ops [OpSaveTask (NewTask ''t1'' ''uuid-0'' 10) ''uuid-1'',
                           OpClaim ''t1'' '''' 20]
                    (empty_heap :: int heap, NewRuntimeStore, NewTaskStore :: int task_store))))"
  by (auto simp: tasks_invariant_def claim_invariant_def SaveTask_def Claim_def NewTask_def
      NewTaskStore_def)

section \<open>Properties of the runtime store\<close>

text \<open>
  C6.  A suspended definition makes \<open>startProcessInstance\<close> return the "is suspended"
  error with heap and store as they were.  Otherwise it returns an instance \<open>P\<close> whose ID
  is the new identifier, stores \<open>P\<close> and a root execution \<open>E\<close> under that identifier with
  \<open>E.ID = E.ProcessInstanceID = P.ID\<close>, and leaves under the same key a variable scope
  whose entries are those of the caller's map.  When the caller's map is not nil the scope
  is a map object of its own, distinct from the caller's, and the caller's map is unchanged.
  The caller's map is an allocated object; when it is nil no scope is written, so the new
  identifier must not key a scope already.
\<close>

theorem startProcessInstance_creates_instance_and_root_execution:
  "(pd_Suspended D \<longrightarrow>
      startProcessInstance h s D businessKey vars uuid now
        = (Inl (definition_suspended (pd_ID D)), h, s))
   \<and> (\<not> pd_Suspended D \<and> (vars = None \<longrightarrow> scopes s uuid = None)
        \<and> (\<forall>src. vars = Some src \<longrightarrow> allocated h src) \<longrightarrow>
      (\<exists>P E h1 s1.
          startProcessInstance h s D businessKey vars uuid now = (Inr P, h1, s1)
        \<and> pi_ID P = uuid \<and> pi_BusinessKey P = businessKey \<and> pi_ProcessDefinitionID P = pd_ID D
        \<and> processInstances s1 = (processInstances s)(uuid \<mapsto> P)
        \<and> executions s1 = (executions s)(uuid \<mapsto> E)
        \<and> ex_ID E = pi_ID P \<and> ex_ProcessInstanceID E = pi_ID P \<and> ex_ParentID E = ''''
        \<and> entries h1 (scopes s1 uuid) = entries h vars
        \<and> (\<forall>src. vars = Some src \<longrightarrow>
              scopes s1 uuid \<noteq> None \<and> scopes s1 uuid \<noteq> Some src \<and> cells h1 src = cells h src)
        \<and> (\<forall>k. k \<noteq> uuid \<longrightarrow> scopes s1 k = scopes s k)))"
  by (auto simp: startProcessInstance_def Let_def make_map_def copy_entries_def entries_def
      allocated_def split: option.splits)

theorem startProcessInstance_creates_instance_and_root_execution_witness:
  "startProcessInstance caller_heap NewRuntimeStore (order_definition\<lparr>pd_Suspended := True\<rparr>)
       ''bk-1'' (Some 0) ''pi-1'' 100
     = (Inl (definition_suspended ''order:1:d1''), caller_heap, NewRuntimeStore)
   \<and> (\<exists>P E h1 s1.
          startProcessInstance caller_heap NewRuntimeStore order_definition ''bk-1'' (Some 0)
            ''pi-1'' 100 = (Inr P, h1, s1)
        \<and> pi_ID P = ''pi-1''
        \<and> processInstances s1 ''pi-1'' = Some P
        \<and> executions s1 ''pi-1'' = Some E
        \<and> ex_ID E = ''pi-1'' \<and> ex_ProcessInstanceID E = ''pi-1''
        \<and> entries h1 (scopes s1 ''pi-1'') = [''amount'' \<mapsto> 7]
        \<and> scopes s1 ''pi-1'' \<noteq> Some 0)"
proof -
  have a: "allocated caller_heap 0"
    by (simp add: allocated_def caller_heap_def)
  have e: "entries caller_heap (Some 0) = [''amount'' \<mapsto> 7]"
    by (simp add: entries_def caller_heap_def)
  have n: "\<not> pd_Suspended order_definition" "pd_ID order_definition = ''order:1:d1''"
    by (simp_all add: order_definition_def)
  show ?thesis
    using startProcessInstance_creates_instance_and_root_execution
            [of "order_definition\<lparr>pd_Suspended := True\<rparr>" caller_heap NewRuntimeStore
                "''bk-1''" "Some 0" "''pi-1''" 100]
          startProcessInstance_creates_instance_and_root_execution
            [of order_definition caller_heap NewRuntimeStore "''bk-1''" "Some 0" "''pi-1''" 100]
          a e n
    by auto
qed

lemmas two_instances_defs =
  two_instances_store_def two_instances_heap_def runtime_example_defs

lemma two_instances_store_facts:
  "processInstances two_instances_store ''pi-1'' \<noteq> None"
  "processInstances two_instances_store ''pi-2'' \<noteq> None"
  "processInstances two_instances_store ''pi-9'' = None"
  "map_option ex_ProcessInstanceID (executions two_instances_store ''pi-1'') = Some ''pi-1''"
  "map_option ex_ProcessInstanceID (executions two_instances_store ''pi-2'') = Some ''pi-2''"
  "scopes two_instances_store ''pi-1'' = Some 1"
  "scopes two_instances_store ''pi-2'' = Some 2"
  by (simp_all add: two_instances_defs)

text \<open>
  C7.  \<open>DeleteProcessInstance\<close> of an instance that is not in the store returns the "not
  found" error and the store as it was.  Of an instance that is there, it returns no
  error; the instance is gone and every other instance is kept; every execution that
  names the instance is gone together with the scope under the execution's key; every
  other key of the executions and of the scopes holds what it held.
\<close>

theorem DeleteProcessInstance_cascades:
  "(processInstances s processInstanceID = None \<longrightarrow>
      DeleteProcessInstance s processInstanceID deleteReason
        = (Some (process_instance_not_found processInstanceID), s))
   \<and> (processInstances s processInstanceID \<noteq> None \<longrightarrow>
      (\<exists>s1. DeleteProcessInstance s processInstanceID deleteReason = (None, s1)
        \<and> processInstances s1 = (processInstances s)(processInstanceID := None)
        \<and> (\<forall>id exec. executions s id = Some exec \<and> ex_ProcessInstanceID exec = processInstanceID
              \<longrightarrow> executions s1 id = None \<and> scopes s1 id = None)
        \<and> (\<forall>id. (\<forall>exec. executions s id = Some exec
                          \<longrightarrow> ex_ProcessInstanceID exec \<noteq> processInstanceID)
              \<longrightarrow> executions s1 id = executions s id \<and> scopes s1 id = scopes s id)))"
  by (auto simp: DeleteProcessInstance_def split: option.splits)

theorem DeleteProcessInstance_cascades_witness:
  "DeleteProcessInstance two_instances_store ''pi-9'' ''cancelled''
     = (Some (process_instance_not_found ''pi-9''), two_instances_store)
   \<and> (\<exists>s1. DeleteProcessInstance two_instances_store ''pi-1'' ''cancelled'' = (None, s1)
        \<and> processInstances s1 ''pi-1'' = None
        \<and> processInstances s1 ''pi-2'' = processInstances two_instances_store ''pi-2''
        \<and> executions s1 ''pi-1'' = None \<and> scopes s1 ''pi-1'' = None
        \<and> executions s1 ''pi-2'' = executions two_instances_store ''pi-2''
        \<and> scopes s1 ''pi-2'' = Some 2)"
proof -
  obtain e1 where e1: "executions two_instances_store ''pi-1'' = Some e1"
      "ex_ProcessInstanceID e1 = ''pi-1''"
    using two_instances_store_facts(4) by auto
  have e2: "\<forall>exec. executions two_instances_store ''pi-2'' = Some exec
              \<longrightarrow> ex_ProcessInstanceID exec \<noteq> ''pi-1''"
    using two_instances_store_facts(5) by auto
  from DeleteProcessInstance_cascades [of two_instances_store "''pi-1''" "''cancelled''"]
  obtain s1 where s1:
      "DeleteProcessInstance two_instances_store ''pi-1'' ''cancelled'' = (None, s1)"
      "processInstances s1 = (processInstances two_instances_store)(''pi-1'' := None)"
      "\<forall>id exec. executions two_instances_store id = Some exec
                   \<and> ex_ProcessInstanceID exec = ''pi-1''
              \<longrightarrow> executions s1 id = None \<and> scopes s1 id = None"
      "\<forall>id. (\<forall>exec. executions two_instances_store id = Some exec
                          \<longrightarrow> ex_ProcessInstanceID exec \<noteq> ''pi-1'')
              \<longrightarrow> executions s1 id = executions two_instances_store id
                  \<and> scopes s1 id = scopes two_instances_store id"
    using two_instances_store_facts(1) by blast
  have "executions s1 ''pi-1'' = None \<and> scopes s1 ''pi-1'' = None"
    using s1(3) e1 by blast
  moreover have "executions s1 ''pi-2'' = executions two_instances_store ''pi-2''
                 \<and> scopes s1 ''pi-2'' = Some 2"
    using s1(4) e2 two_instances_store_facts(7) by simp
  moreover have "processInstances s1 ''pi-1'' = None
                 \<and> processInstances s1 ''pi-2'' = processInstances two_instances_store ''pi-2''"
    using s1(2) by simp
  moreover have "DeleteProcessInstance two_instances_store ''pi-9'' ''cancelled''
                   = (Some (process_instance_not_found ''pi-9''), two_instances_store)"
    using DeleteProcessInstance_cascades [of two_instances_store "''pi-9''" "''cancelled''"]
      two_instances_store_facts(3) by simp
  ultimately show ?thesis
    using s1(1) by simp
qed

section \<open>Properties of the command pipeline\<close>

lemma errors_Is_refl: "errors_Is e e"
  by (cases e) simp_all

lemmas example_command_defs =
  failing_command_def succeeding_command_def partial_command_def initial_state_def
  background_def boom_def

lemmas interceptor_defs =
  LoggingInterceptor_Execute_def TransactionInterceptor_Execute_def
  ContextInterceptor_Execute_def CommandInvoker_Execute_def command_Execute_def
  enter_def printf_def Let_def

text \<open>
  C10.  \<open>NewTaskService\<close> calls \<open>NewCommandExecutor\<close> with no interceptor, and that call
  panics: whatever runtime service is passed, the constructor ends in the panic "at least
  one interceptor is required" and returns no service.
\<close>

theorem NewTaskService_panics:
  "(NewTaskService rtService
      :: string + ('r, ('c, 'e, 'v, 's) CommandExecutorImpl, 'w) taskServiceImpl)
     = Inl at_least_one_interceptor"
  by (simp add: NewTaskService_def engine_NewCommandExecutor_def)

text \<open>The executor constructors panic on the empty list and on nothing else.\<close>

lemma engine_NewCommandExecutor_panics_iff:
  "(\<exists>p. engine_NewCommandExecutor xs = Inl p) \<longleftrightarrow> xs = []"
  by (simp add: engine_NewCommandExecutor_def)

lemma NewCommandExecutor_panics_iff:
  "(\<exists>p. NewCommandExecutor xs = Inl p) \<longleftrightarrow> xs = []"
  by (simp add: NewCommandExecutor_def)

subsection \<open>Retry\<close>

text \<open>
  C8, as the code has it.  Let the bound \<open>maxRetries\<close> be at least 0 and let the downstream
  fail when the interceptor calls it.  Then \<open>RetryInterceptor.Execute\<close> returns after that
  one call: the state it leaves is the state the single downstream call left, the result
  is nil, and the error is the "command failed after N retries" error wrapping the
  downstream's error, which \<open>errors.Is\<close> finds in it.
\<close>

theorem retry_gives_up_after_first_failure:
  assumes "0 \<le> maxRetries"
    and "next ctx command (enter s Retry) = (Return result (Some e), s1)"
  shows "RetryInterceptor_Execute maxRetries next ctx command s
           = (Return None
                (Some (Wrapf (''command failed after '' @ itoa maxRetries @ '' retries: '') e)),
              s1)
         \<and> errors_Is (Wrapf (''command failed after '' @ itoa maxRetries @ '' retries: '') e) e"
  using assms
  by (simp add: RetryInterceptor_Execute_def isRetryableError_def retries_exhausted_def
      errors_Is_refl)

theorem retry_gives_up_after_first_failure_witness:
  "RetryInterceptor_Execute 3 (chain_Execute [ContextInterceptor ()]) background
       failing_command initial_state
     = (Return None (Some (Wrapf ''command failed after 3 retries: '' boom)),
        \<lparr>log_lines = [],
         trace = [Entered Retry, Entered Context, Executed_command Context],
         world = 1\<rparr>)
   \<and> errors_Is (Wrapf ''command failed after 3 retries: '' boom) boom"
proof -
  have one: "chain_Execute [ContextInterceptor ()] background failing_command
               (enter initial_state Retry)
             = (Return None (Some boom),
                \<lparr>log_lines = [],
                 trace = [Entered Retry, Entered Context, Executed_command Context],
                 world = 1\<rparr>)"
    by (simp add: interceptor_defs example_command_defs NewCommandContext_def
        WithCommandContext_def)
  have three: "itoa 3 = ''3''"
    by (simp add: itoa_def)
  show ?thesis
    using retry_gives_up_after_first_failure
            [of 3 "chain_Execute [ContextInterceptor ()]" background failing_command
                initial_state None boom]
          one three
    by simp
qed

text \<open>
  C8, as the claim states it, fails for a negative bound: with \<open>maxRetries = -1\<close> the loop
  body never runs, so the downstream is not called at all (the counter of the world is
  still 0), and the error returned wraps nothing.
\<close>

theorem retry_negative_bound_never_calls_downstream:
  "RetryInterceptor_Execute (- 1) (chain_Execute [ContextInterceptor ()]) background
       failing_command initial_state
     = (Return None (Some (Errorf ''command failed after -1 retries: %!w(<nil>)'')),
        \<lparr>log_lines = [], trace = [Entered Retry], world = 0\<rparr>)
   \<and> \<not> errors_Is (Errorf ''command failed after -1 retries: %!w(<nil>)'') boom"
  by (simp add: RetryInterceptor_Execute_def retries_exhausted_def itoa_def enter_def
      example_command_defs)

subsection \<open>What each interceptor hands back\<close>

text \<open>Logging returns exactly what the rest of the chain returned.\<close>

lemma Logging_passes_outcome:
  "fst (LoggingInterceptor_Execute next ctx command s)
     = fst (next ctx command (printf (enter s Logging) (Executing (type_name command))))"
  by (simp add: LoggingInterceptor_Execute_def Let_def split: prod.splits outcome.splits
      option.splits)

text \<open>
  Transaction returns the error it was given; with an error it returns the nil result.
\<close>

lemma Transaction_passes_outcome:
  "fst (TransactionInterceptor_Execute next ctx command s)
     = (case fst (next ctx command (enter s Transaction)) of
          Panic p \<Rightarrow> Panic p
        | Return result None \<Rightarrow> Return result None
        | Return result (Some e) \<Rightarrow> Return None (Some e))"
  by (simp add: TransactionInterceptor_Execute_def Let_def split: prod.splits outcome.splits
      option.splits)

text \<open>
  The ContextInterceptor makes the CommandContext, runs the command itself and does not
  call \<open>next\<close>: whatever follows it in the chain is not run.
\<close>

lemma ContextInterceptor_ignores_next:
  "ContextInterceptor_Execute eng next = ContextInterceptor_Execute eng next'"
  by (rule ext)+ (simp add: ContextInterceptor_Execute_def)

lemma chain_after_ContextInterceptor_unused:
  "chain_Execute (pre @ ContextInterceptor eng # rest)
     = chain_Execute (pre @ [ContextInterceptor eng])"
proof (induction pre)
  case Nil
  show ?case
    using ContextInterceptor_ignores_next [of eng "chain_Execute rest" nil_next] by simp
next
  case (Cons i pre)
  then show ?case by simp
qed

text \<open>
  Run on its own, the CommandInvoker does what its comment says: without a CommandContext in
  the context it returns the "not found" error and does not run the command; with one it
  runs the command and returns what the command returned.
\<close>

lemma CommandInvoker_without_context:
  assumes "GetCommandContext ctx = None"
  shows "CommandInvoker_Execute next ctx command s
           = (Return None (Some context_missing), enter s Invoker)"
  using assms by (simp add: CommandInvoker_Execute_def)

lemma CommandInvoker_with_context:
  assumes "GetCommandContext ctx = Some commandContext"
    and "Execute command ctx commandContext (world s) = ((result, err), w)"
  shows "CommandInvoker_Execute next ctx command s
           = (Return result err,
              s\<lparr>trace := trace s @ [Entered Invoker, Executed_command Invoker], world := w\<rparr>)"
  using assms by (simp add: CommandInvoker_Execute_def command_Execute_def enter_def)

subsection \<open>The chain the builder assembles\<close>

lemma Build_default:
  "Build (NewCommandExecutorBuilder e)
     = Inr \<lparr>first = [LoggingInterceptor, TransactionInterceptor, ContextInterceptor e,
                     CommandInvoker]\<rparr>"
  by (simp add: Build_def NewCommandExecutorBuilder_def NewCommandExecutor_def)

lemma engine_executor_default: "engine_executor e = Build (NewCommandExecutorBuilder e)"
  by (simp add: engine_executor_def WithLogging_def WithTransaction_def
      NewCommandExecutorBuilder_def)

text \<open>
  C4.  The claim says that in the default chain every command reaches the CommandInvoker
  and that the invoker is what calls \<open>command.Execute\<close>.  The default builder assembles
  Logging, Transaction, Context, Invoker; executing any command through it enters
  Logging, Transaction and Context, and it is the ContextInterceptor that calls
  \<open>command.Execute\<close>.  The CommandInvoker is never entered.
\<close>

theorem default_chain_never_enters_CommandInvoker:
  "\<exists>ex. Build (NewCommandExecutorBuilder e) = Inr ex
     \<and> first ex = [LoggingInterceptor, TransactionInterceptor, ContextInterceptor e,
                    CommandInvoker]
     \<and> trace (snd (CommandExecutor_Execute ex ctx (Some command) s))
         = trace s @ [Entered Logging, Entered Transaction, Entered Context,
                      Executed_command Context]"
  by (simp add: Build_default CommandExecutor_Execute_def interceptor_defs
      split: prod.splits option.splits)

text \<open>
  C9, as the code has it.  Take the chain Logging, Transaction, Context, Invoker and a
  command, and let \<open>(result, err)\<close> be what the command's \<open>Execute\<close> returns on the context
  the chain gives it, and \<open>w\<close> the world it leaves.  Then the executor leaves the world \<open>w\<close>;
  when \<open>err\<close> is nil it returns \<open>result\<close> with a nil error; when \<open>err\<close> is an error it
  returns that very error (so \<open>errors.Is\<close> finds it) with a nil result, whatever result the
  command returned with the error.  Outcome and world are those of the chain without
  Logging and Transaction.  Logging, in front of any downstream, returns the result and
  the error the downstream returned.  Transaction, in front of any downstream, returns the
  error the downstream returned; it returns the downstream's result when there is no
  error, and nil in place of a result that comes with an error.
\<close>

theorem pipeline_returns_what_the_command_returns:
  "(Execute command (WithCommandContext ctx (NewCommandContext ctx eng))
        (NewCommandContext ctx eng) (world s) = ((result, err), w)
      \<longrightarrow> (\<exists>out s1.
           CommandExecutor_Execute
             \<lparr>first = [LoggingInterceptor, TransactionInterceptor, ContextInterceptor eng,
                       CommandInvoker]\<rparr> ctx (Some command) s = (out, s1)
         \<and> world s1 = w
         \<and> (err = None \<longrightarrow> out = Return result None)
         \<and> (\<forall>e. err = Some e \<longrightarrow>
               (\<exists>e'. out = Return None (Some e') \<and> e' = e \<and> errors_Is e' e))
         \<and> out = fst (chain_Execute [ContextInterceptor eng, CommandInvoker] ctx command s)
         \<and> w = world (snd (chain_Execute [ContextInterceptor eng, CommandInvoker]
                              ctx command s))
         \<and> log_lines s1
             = log_lines s @ [Executing (type_name command),
                              (case err of None \<Rightarrow> Completed (type_name command)
                                         | Some e \<Rightarrow> Failed (type_name command) e)]))
   \<and> fst (LoggingInterceptor_Execute next ctx' command' s')
       = fst (next ctx' command' (printf (enter s' Logging) (Executing (type_name command'))))
   \<and> fst (TransactionInterceptor_Execute next ctx' command' s')
       = (case fst (next ctx' command' (enter s' Transaction)) of
            Panic p \<Rightarrow> Panic p
          | Return r None \<Rightarrow> Return r None
          | Return r (Some e) \<Rightarrow> Return None (Some e))"
proof (intro conjI impI)
  assume "Execute command (WithCommandContext ctx (NewCommandContext ctx eng))
            (NewCommandContext ctx eng) (world s) = ((result, err), w)"
  then show "\<exists>out s1.
           CommandExecutor_Execute
             \<lparr>first = [LoggingInterceptor, TransactionInterceptor, ContextInterceptor eng,
                       CommandInvoker]\<rparr> ctx (Some command) s = (out, s1)
         \<and> world s1 = w
         \<and> (err = None \<longrightarrow> out = Return result None)
         \<and> (\<forall>e. err = Some e \<longrightarrow>
               (\<exists>e'. out = Return None (Some e') \<and> e' = e \<and> errors_Is e' e))
         \<and> out = fst (chain_Execute [ContextInterceptor eng, CommandInvoker] ctx command s)
         \<and> w = world (snd (chain_Execute [ContextInterceptor eng, CommandInvoker]
                              ctx command s))
         \<and> log_lines s1
             = log_lines s @ [Executing (type_name command),
                              (case err of None \<Rightarrow> Completed (type_name command)
                                         | Some e \<Rightarrow> Failed (type_name command) e)]"
    by (cases err) (simp_all add: CommandExecutor_Execute_def interceptor_defs errors_Is_refl)
next
  show "fst (LoggingInterceptor_Execute next ctx' command' s')
       = fst (next ctx' command' (printf (enter s' Logging) (Executing (type_name command'))))"
    by (rule Logging_passes_outcome)
next
  show "fst (TransactionInterceptor_Execute next ctx' command' s')
       = (case fst (next ctx' command' (enter s' Transaction)) of
            Panic p \<Rightarrow> Panic p
          | Return r None \<Rightarrow> Return r None
          | Return r (Some e) \<Rightarrow> Return None (Some e))"
    by (rule Transaction_passes_outcome)
qed

theorem pipeline_returns_what_the_command_returns_witness:
  "(\<exists>s1. CommandExecutor_Execute
            \<lparr>first = [LoggingInterceptor, TransactionInterceptor, ContextInterceptor (),
                      CommandInvoker]\<rparr> background (Some failing_command) initial_state
          = (Return None (Some boom), s1) \<and> world s1 = 1)
   \<and> (\<exists>s1. CommandExecutor_Execute
            \<lparr>first = [LoggingInterceptor, TransactionInterceptor, ContextInterceptor (),
                      CommandInvoker]\<rparr> background (Some succeeding_command) initial_state
          = (Return (Some 0) None, s1) \<and> world s1 = 1)
   \<and> (\<exists>s1. CommandExecutor_Execute
            \<lparr>first = [LoggingInterceptor, TransactionInterceptor, ContextInterceptor (),
                      CommandInvoker]\<rparr> background (Some partial_command) initial_state
          = (Return None (Some boom), s1) \<and> world s1 = 1)"
proof -
  have f: "Execute failing_command
             (WithCommandContext background (NewCommandContext background ()))
             (NewCommandContext background ()) (world initial_state) = ((None, Some boom), 1)"
    by (simp add: example_command_defs)
  have g: "Execute succeeding_command
             (WithCommandContext background (NewCommandContext background ()))
             (NewCommandContext background ()) (world initial_state) = ((Some 0, None), 1)"
    by (simp add: example_command_defs)
  have p: "Execute partial_command
             (WithCommandContext background (NewCommandContext background ()))
             (NewCommandContext background ()) (world initial_state) = ((Some 7, Some boom), 1)"
    by (simp add: example_command_defs)
  have 1: "\<exists>s1. CommandExecutor_Execute
            \<lparr>first = [LoggingInterceptor, TransactionInterceptor, ContextInterceptor (),
                      CommandInvoker]\<rparr> background (Some failing_command) initial_state
          = (Return None (Some boom), s1) \<and> world s1 = 1"
    using pipeline_returns_what_the_command_returns
            [where command = failing_command and ctx = background and eng = "()"
               and s = initial_state and result = None and err = "Some boom" and w = 1,
                THEN conjunct1, THEN mp, OF f]
    by auto
  have 2: "\<exists>s1. CommandExecutor_Execute
            \<lparr>first = [LoggingInterceptor, TransactionInterceptor, ContextInterceptor (),
                      CommandInvoker]\<rparr> background (Some succeeding_command) initial_state
          = (Return (Some 0) None, s1) \<and> world s1 = 1"
    using pipeline_returns_what_the_command_returns
            [where command = succeeding_command and ctx = background and eng = "()"
               and s = initial_state and result = "Some 0" and err = None and w = 1,
                THEN conjunct1, THEN mp, OF g]
    by auto
  have 3: "\<exists>s1. CommandExecutor_Execute
            \<lparr>first = [LoggingInterceptor, TransactionInterceptor, ContextInterceptor (),
                      CommandInvoker]\<rparr> background (Some partial_command) initial_state
          = (Return None (Some boom), s1) \<and> world s1 = 1"
    using pipeline_returns_what_the_command_returns
            [where command = partial_command and ctx = background and eng = "()"
               and s = initial_state and result = "Some 7" and err = "Some boom" and w = 1,
                THEN conjunct1, THEN mp, OF p]
    by auto
  from 1 2 3 show ?thesis by blast
qed

text \<open>
  C9, as the claim states it, fails for a command that returns a result together with
  its error: called directly it returns the result 7 and the error; through the chain the
  error comes back with a nil result.  The Transaction interceptor alone, in front of a
  downstream that returns both, does the same.
\<close>

theorem pipeline_drops_result_returned_with_error:
  "fst (Execute partial_command
          (WithCommandContext background (NewCommandContext background ()))
          (NewCommandContext background ()) (world initial_state))
     = (Some 7, Some boom)
   \<and> fst (CommandExecutor_Execute
            \<lparr>first = [LoggingInterceptor, TransactionInterceptor, ContextInterceptor (),
                      CommandInvoker]\<rparr> background (Some partial_command) initial_state)
       = Return None (Some boom)
   \<and> fst (CommandInvoker_Execute nil_next
            (WithCommandContext background (NewCommandContext background ()))
            partial_command initial_state)
       = Return (Some 7) (Some boom)
   \<and> fst (TransactionInterceptor_Execute (CommandInvoker_Execute nil_next)
            (WithCommandContext background (NewCommandContext background ()))
            partial_command initial_state)
       = Return None (Some boom)"
  by (simp add: CommandExecutor_Execute_def interceptor_defs example_command_defs
      NewCommandContext_def WithCommandContext_def GetCommandContext_def)

section \<open>Completing a task through the command\<close>

lemmas command_defs =
  GetTask_def CommandExecutorImpl_Execute_def StartProcessInstanceCommand_command_def
  StartProcessInstanceCommand_Execute_def zero_StartProcessInstanceCommand_def
  task_executor_def review_state_def completed_state_def

lemma GetTask_review_state:
  "GetTask byID byKey task_executor (Ctx () None) taskID review_state
     = (Return None (Some id_or_key_required),
        \<lparr>log_lines = [Executing ''*commands.StartProcessInstanceCommand'',
                       Failed ''*commands.StartProcessInstanceCommand'' id_or_key_required],
         trace = [Entered Logging, Entered Transaction, Entered Context,
                  Executed_command Context],
         world = review_world\<rparr>)"
  by (simp add: command_defs interceptor_defs NewCommandContext_def WithCommandContext_def)


lemma GetTask_completed_state:
  "fst (GetTask byID byKey task_executor (Ctx () None) taskID completed_state)
     = Return None (Some id_or_key_required)"
  by (simp add: command_defs interceptor_defs NewCommandContext_def WithCommandContext_def)

lemma completed_world_tasks: "tasks (st_tasks completed_world) ''t2'' = None"
proof -
  obtain h1 rs1 s1 where
    c: "CompleteWithVariables review_heap started_store review_store ''t2'' (Some 2)
          = (None, h1, rs1, s1)"
    and t: "tasks s1 ''t2'' = None"
    using Complete_propagates_variables_witness by blast
  show ?thesis
    by (simp add: completed_world_def c t)
qed

lemma review_scope_before: "cells review_heap 1 ''approved'' = None"
  by (simp add: review_heap_def started_heap_next) (simp add: runtime_example_defs)

text \<open>
  C2.  The claim says that completing a task with variables stores them on the task's
  execution and that the task is then reported as not found.  \<open>GetTask\<close> is the lookup, and
  \<open>CompleteTaskCommand.Execute\<close> starts with it.  On the stores in which the task \<open>t2\<close>
  waits on the execution \<open>pi-1\<close>, with the executor made of the builder's interceptors:
  \<open>GetTask\<close> returns no task and the error of an empty StartProcessInstanceCommand, although
  the task is in the store; the command given \<open>{"approved": 1}\<close> returns that error wrapped
  as "task not found", and leaves the stores as they were, so the task is still there and
  the scope of the execution has no entry \<open>approved\<close>; and once the service method has
  completed the task, \<open>GetTask\<close> returns the same error as before, which is not the "task
  not found" error.
\<close>

theorem CompleteTaskCommand_stops_at_GetTask:
  "tasks (st_tasks review_world) ''t2'' = Some review_task
   \<and> ExecutionID review_task = ''pi-1''
   \<and> scopes (st_runtime review_world) ''pi-1'' = Some 1
   \<and> fst (GetTask byID byKey task_executor (Ctx () None) ''t2'' review_state)
       = Return None (Some id_or_key_required)
   \<and> fst (CompleteTaskCommand_Execute byID byKey task_executor
             \<lparr>ctc_TaskID = ''t2'', ctc_Variables = Some 2\<rparr> (Ctx () None) commandContext
             review_state)
       = Return None (Some (Wrapf ''task not found: '' id_or_key_required))
   \<and> world (snd (CompleteTaskCommand_Execute byID byKey task_executor
                    \<lparr>ctc_TaskID = ''t2'', ctc_Variables = Some 2\<rparr> (Ctx () None) commandContext
                    review_state))
       = review_world
   \<and> cells (st_heap review_world) 2 = [''approved'' \<mapsto> 1]
   \<and> cells (st_heap review_world) 1 ''approved'' = None
   \<and> tasks (st_tasks completed_world) ''t2'' = None
   \<and> fst (GetTask byID byKey task_executor (Ctx () None) ''t2'' completed_state)
       = Return None (Some id_or_key_required)
   \<and> id_or_key_required \<noteq> task_not_found ''t2''
   \<and> Error id_or_key_required = ''either process definition ID or key must be provided''"
proof -
  have "tasks (st_tasks review_world) ''t2'' = Some review_task"
    by (simp add: review_world_def review_store_task)
  moreover have "ExecutionID review_task = ''pi-1''"
    by (simp add: review_task_def)
  moreover have "scopes (st_runtime review_world) ''pi-1'' = Some 1"
    by (simp add: review_world_def started_store_scopes)
  moreover have "fst (GetTask byID byKey task_executor (Ctx () None) ''t2'' review_state)
                   = Return None (Some id_or_key_required)"
    by (simp add: GetTask_review_state)
  moreover have "fst (CompleteTaskCommand_Execute byID byKey task_executor
                        \<lparr>ctc_TaskID = ''t2'', ctc_Variables = Some 2\<rparr> (Ctx () None)
                        commandContext review_state)
                   = Return None (Some (Wrapf ''task not found: '' id_or_key_required))"
    by (simp add: CompleteTaskCommand_Execute_def GetTask_review_state)
  moreover have "world (snd (CompleteTaskCommand_Execute byID byKey task_executor
                        \<lparr>ctc_TaskID = ''t2'', ctc_Variables = Some 2\<rparr> (Ctx () None)
                        commandContext review_state))
                   = review_world"
    by (simp add: CompleteTaskCommand_Execute_def GetTask_review_state)
  moreover have "cells (st_heap review_world) 2 = [''approved'' \<mapsto> 1]"
    by (simp add: review_world_def review_heap_facts)
  moreover have "cells (st_heap review_world) 1 ''approved'' = None"
    using review_scope_before by (simp add: review_world_def)
  moreover have "tasks (st_tasks completed_world) ''t2'' = None"
    by (rule completed_world_tasks)
  moreover have "fst (GetTask byID byKey task_executor (Ctx () None) ''t2'' completed_state)
                   = Return None (Some id_or_key_required)"
    by (rule GetTask_completed_state)
  moreover have "id_or_key_required \<noteq> task_not_found ''t2''"
    by (simp add: id_or_key_required_def task_not_found_def)
  moreover have "Error id_or_key_required
                   = ''either process definition ID or key must be provided''"
    by (simp add: id_or_key_required_def)
  ultimately show ?thesis
    by blast
qed

end
